theory Spec2Isabelle
  imports Complex_Main "HOL-Library.Sublist"
begin

section \<open>JavaScript values used by the service\<close>

text \<open>
  Strings are \<open>string\<close>. A value read from a sheet row (\<open>row.get(header)\<close>) is a
  string or \<open>undefined\<close>: \<open>string option\<close>, with \<open>None\<close> for \<open>undefined\<close> and for
  \<open>null\<close>. Times are milliseconds as \<open>int\<close> (\<open>Date.now()\<close>).
\<close>

type_synonym jsval = "string option"

text \<open>Truthiness of a string-or-undefined value: \<open>undefined\<close>, \<open>null\<close> and \<open>''\<close> are falsy.\<close>

definition truthy :: "jsval \<Rightarrow> bool" where
  "truthy v = (case v of None \<Rightarrow> False | Some s \<Rightarrow> s \<noteq> [])"


text \<open>A thrown JavaScript error, with its \<open>message\<close>.\<close>

datatype error = Error string | TypeError string

fun message :: "error \<Rightarrow> string" where
  "message (Error m) = m"
| "message (TypeError m) = m"

text \<open>
  White space of the regular expression class \<open>\s\<close> and of \<open>trim\<close>, on the ASCII range:
  tab, line feed, vertical tab, form feed, carriage return, space.
\<close>

definition is_space :: "char \<Rightarrow> bool" where
  "is_space c = (let n = (of_char c :: nat) in (9 \<le> n \<and> n \<le> 13) \<or> n = 32)"

text \<open>\<open>toLowerCase\<close>, on the ASCII letters; every other character is kept.\<close>

definition toLowerChar :: "char \<Rightarrow> char" where
  "toLowerChar c = (let n = (of_char c :: nat) in if 65 \<le> n \<and> n \<le> 90 then char_of (n + 32) else c)"

definition toLowerCase :: "string \<Rightarrow> string" where
  "toLowerCase s = map toLowerChar s"

text \<open>\<open>trim\<close>: white space removed at both ends.\<close>

definition trim :: "string \<Rightarrow> string" where
  "trim s = rev (dropWhile is_space (rev (dropWhile is_space s)))"

text \<open>\<open>s.replace(/\s+/g, ' ')\<close>: every maximal run of white space becomes one space.\<close>

fun collapseFrom :: "bool \<Rightarrow> string \<Rightarrow> string" where
  "collapseFrom inRun [] = []"
| "collapseFrom inRun (c # cs) =
     (if is_space c
      then (if inRun then collapseFrom True cs else CHR '' '' # collapseFrom True cs)
      else c # collapseFrom False cs)"

definition collapseSpaces :: "string \<Rightarrow> string" where
  "collapseSpaces s = collapseFrom False s"

text \<open>\<open>s.replace(/\s+/g, '')\<close>: all white space removed.\<close>

definition removeSpaces :: "string \<Rightarrow> string" where
  "removeSpaces s = filter (\<lambda>c. \<not> is_space c) s"

text \<open>\<open>hay.includes(needle)\<close>: \<open>needle\<close> occurs in \<open>hay\<close> as a contiguous run.\<close>

definition js_includes :: "string \<Rightarrow> string \<Rightarrow> bool" where
  "js_includes hay needle = sublist needle hay"


section \<open>Sheet rows\<close>

text \<open>
  Column headers of the sheets, as the code reads them with \<open>row.get\<close>:
  \<open>EmployeeName\<close> is the employee-name column, \<open>SystemName\<close> the system-name column,
  \<open>ClockInTime\<close> and \<open>ClockOutTime\<close> the clock-in and clock-out columns, \<open>RowRef\<close> and
  \<open>RowInMain\<close> the two columns of ON WORK that hold the row number of the MAIN entry.
\<close>

datatype header = EmployeeName | SystemName | ClockInTime | ClockOutTime | RowRef | RowInMain

text \<open>A row object of the spreadsheet library: its row number in the sheet and its cells.\<close>

record sheet_row =
  rowNumber :: nat
  get :: "header \<Rightarrow> jsval"


section \<open>APIMonitor: the call budget limiter\<close>

text \<open>A call-log entry is \<open>{timestamp, operation}\<close>.\<close>

type_synonym api_call = "int \<times> string"

record api_monitor =
  apiCalls :: "api_call list"
  maxCallsPerMinute :: nat
  maxCallsPerHour :: nat
  burstLimit :: nat
  currentBurst :: nat
  lastBurstReset :: int

definition APIMonitor_new :: "int \<Rightarrow> api_monitor" where
  "APIMonitor_new now =
     \<lparr>apiCalls = [], maxCallsPerMinute = 100, maxCallsPerHour = 1000,
      burstLimit = 75, currentBurst = 0, lastBurstReset = now\<rparr>"

text \<open>The interval timer of the constructor: every 5 seconds the burst counter is zeroed.\<close>

definition autoResetBurst :: "api_monitor \<Rightarrow> api_monitor" where
  "autoResetBurst m = (if currentBurst m > 0 then m\<lparr>currentBurst := 0\<rparr> else m)"

definition logAPICall :: "int \<Rightarrow> string \<Rightarrow> api_monitor \<Rightarrow> api_monitor" where
  "logAPICall now operation m =
     m\<lparr>apiCalls := filter (\<lambda>call. now - fst call < 3600000) (apiCalls m @ [(now, operation)])\<rparr>"

definition canMakeAPICall :: "int \<Rightarrow> api_monitor \<Rightarrow> bool \<times> api_monitor" where
  "canMakeAPICall now m =
     (let callsInLastMinute = length (filter (\<lambda>call. now - fst call < 60000) (apiCalls m));
          callsInLastHour = length (apiCalls m)
      in if currentBurst m \<ge> burstLimit m then (False, m)
         else if callsInLastMinute \<ge> maxCallsPerMinute m then (False, m)
         else if callsInLastHour \<ge> maxCallsPerHour m then (False, m)
         else (True, m\<lparr>currentBurst := currentBurst m + 1\<rparr>))"

definition finishCall :: "api_monitor \<Rightarrow> api_monitor" where
  "finishCall m = (if currentBurst m > 0 then m\<lparr>currentBurst := currentBurst m - 1\<rparr> else m)"

text \<open>The number of logged calls whose age at \<open>now\<close> is below \<open>window\<close> milliseconds.\<close>

definition callsWithin :: "int \<Rightarrow> int \<Rightarrow> api_monitor \<Rightarrow> nat" where
  "callsWithin window now m = length (filter (\<lambda>call. now - fst call < window) (apiCalls m))"


section \<open>The dataset cache of GoogleSheetsService\<close>

record cache_entry =
  data :: "sheet_row list option"
  timestamp :: "int option"
  ttl :: int

text \<open>
  The service object: \<open>this.cache\<close> is an object keyed by strings, \<open>this.emergencyMode\<close>
  a flag. The limiter \<open>apiMonitor\<close> is a global of the same process; it is carried in the
  same state.
\<close>

record service =
  cache :: "string \<rightharpoonup> cache_entry"
  emergencyMode :: bool
  apiMonitor :: api_monitor

definition emptyEntry :: "int \<Rightarrow> cache_entry" where
  "emptyEntry t = \<lparr>data = None, timestamp = None, ttl = t\<rparr>"

text \<open>The constructor. The open-sessions entry is created under the key \<open>onWork\<close>.\<close>

definition GoogleSheetsService_new :: "api_monitor \<Rightarrow> service" where
  "GoogleSheetsService_new mon =
     \<lparr>cache = [''employees'' \<mapsto> emptyEntry 300000,
               ''onWork'' \<mapsto> emptyEntry 60000,
               ''main'' \<mapsto> emptyEntry 30000,
               ''stats'' \<mapsto> emptyEntry 120000],
      emergencyMode = False,
      apiMonitor = mon\<rparr>"

text \<open>\<open>!cache.timestamp\<close> holds for \<open>null\<close> and for the number 0.\<close>

definition isCacheValid :: "int \<Rightarrow> service \<Rightarrow> string \<Rightarrow> bool" where
  "isCacheValid now s cacheKey =
     (case cache s cacheKey of
        None \<Rightarrow> False
      | Some c \<Rightarrow>
          (case data c of
             None \<Rightarrow> False
           | Some d \<Rightarrow>
               (case timestamp c of
                  None \<Rightarrow> False
                | Some t \<Rightarrow> if t = 0 then False else now - t < ttl c)))"

definition setCache :: "int \<Rightarrow> string \<Rightarrow> sheet_row list \<Rightarrow> service \<Rightarrow> service" where
  "setCache now cacheKey d s =
     (let c0 = (case cache s cacheKey of None \<Rightarrow> emptyEntry 300000 | Some c \<Rightarrow> c)
      in s\<lparr>cache := (cache s)(cacheKey \<mapsto> \<lparr>data = Some d, timestamp = Some now, ttl = ttl c0\<rparr>)\<rparr>)"

definition getCache :: "service \<Rightarrow> string \<Rightarrow> sheet_row list option" where
  "getCache s cacheKey = (case cache s cacheKey of None \<Rightarrow> None | Some c \<Rightarrow> data c)"

text \<open>
  \<open>clearCache(cacheKey)\<close> assigns to \<open>this.cache[cacheKey].data\<close>: a key that the cache
  does not hold raises a TypeError. \<open>clearCache()\<close> clears every entry.
\<close>

definition clearCache :: "string \<Rightarrow> service \<Rightarrow> error + service" where
  "clearCache cacheKey s =
     (case cache s cacheKey of
        None \<Rightarrow> Inl (TypeError ''Cannot set properties of undefined'')
      | Some c \<Rightarrow> Inr (s\<lparr>cache := (cache s)(cacheKey \<mapsto> c\<lparr>data := None, timestamp := None\<rparr>)\<rparr>))"

definition clearCacheAll :: "service \<Rightarrow> service" where
  "clearCacheAll s =
     s\<lparr>cache := (\<lambda>k. map_option (\<lambda>c. c\<lparr>data := None, timestamp := None\<rparr>) (cache s k))\<rparr>"

text \<open>One assignment \<open>this.cache.<key>.ttl = v\<close>.\<close>

definition setTtl :: "string \<Rightarrow> int \<Rightarrow> service \<Rightarrow> error + service" where
  "setTtl k v s =
     (case cache s k of
        None \<Rightarrow> Inl (TypeError ''Cannot set properties of undefined'')
      | Some c \<Rightarrow> Inr (s\<lparr>cache := (cache s)(k \<mapsto> c\<lparr>ttl := v\<rparr>)\<rparr>))"

text \<open>
  \<open>setEmergencyMode\<close>. The result is the error thrown, if any, and the state as the
  assignments made before the throw left it.
\<close>

definition setEmergencyMode :: "bool \<Rightarrow> service \<Rightarrow> error option \<times> service" where
  "setEmergencyMode enabled s0 =
     (let s = s0\<lparr>emergencyMode := enabled\<rparr>
      in if enabled
         then (None, s\<lparr>cache := (\<lambda>k. map_option (\<lambda>c. c\<lparr>ttl := 3600000\<rparr>) (cache s k))\<rparr>)
         else (case setTtl ''employees'' 300000 s of
                 Inl e \<Rightarrow> (Some e, s)
               | Inr s1 \<Rightarrow>
                   (case setTtl ''onwork'' 60000 s1 of
                      Inl e \<Rightarrow> (Some e, s1)
                    | Inr s2 \<Rightarrow>
                        (case setTtl ''main'' 30000 s2 of
                           Inl e \<Rightarrow> (Some e, s2)
                         | Inr s3 \<Rightarrow>
                             (case setTtl ''stats'' 120000 s3 of
                                Inl e \<Rightarrow> (Some e, s3)
                              | Inr s4 \<Rightarrow> (None, s4))))))"


section \<open>The resilient fetch\<close>

text \<open>
  \<open>getCachedSheetData\<close>. \<open>now\<close> is the clock reading of the call; \<open>remote sheetName\<close> is
  what \<open>getSheet(sheetName)\<close> followed by \<open>sheet.getRows(...)\<close> gives: the rows, or the
  error thrown. The result is the rows returned or the error thrown, with the state.
\<close>

definition cacheKeyOf :: "string \<Rightarrow> string" where
  "cacheKeyOf sheetName = removeSpaces (toLowerCase sheetName)"

definition isQuotaError :: "error \<Rightarrow> bool" where
  "isQuotaError e =
     (js_includes (message e) ''quota'' \<or> js_includes (message e) ''limit'' \<or>
      js_includes (message e) ''429'' \<or> js_includes (message e) ''RATE_LIMIT'')"

definition rateLimitError :: error where
  "rateLimitError = Error ''Rate limit exceeded and no cached data available''"

text \<open>
  In the first branch \<open>isCacheValid\<close> has found a payload, so \<open>getCache\<close> returns it; the
  \<open>null\<close> of \<open>getCache\<close> cannot occur there and is given the empty array.
\<close>

definition getCachedSheetData ::
  "int \<Rightarrow> (string \<Rightarrow> error + sheet_row list) \<Rightarrow> string \<Rightarrow> service
     \<Rightarrow> (error + sheet_row list) \<times> service" where
  "getCachedSheetData now remote sheetName s =
     (let cacheKey = cacheKeyOf sheetName
      in if isCacheValid now s cacheKey
         then (case getCache s cacheKey of Some d \<Rightarrow> (Inr d, s) | None \<Rightarrow> (Inr [], s))
         else
           (case canMakeAPICall now (apiMonitor s) of
              (False, mon) \<Rightarrow>
                (case getCache s cacheKey of
                   Some staleData \<Rightarrow> (Inr staleData, s\<lparr>apiMonitor := mon\<rparr>)
                 | None \<Rightarrow> (Inl rateLimitError, s\<lparr>apiMonitor := mon\<rparr>))
            | (True, mon) \<Rightarrow>
                (let s1 = s\<lparr>apiMonitor := logAPICall now (''getCachedSheetData:'' @ sheetName) mon\<rparr>
                 in case remote sheetName of
                      Inr rows \<Rightarrow>
                        (let s2 = setCache now cacheKey rows s1
                         in (Inr rows, s2\<lparr>apiMonitor := finishCall (apiMonitor s2)\<rparr>))
                    | Inl e \<Rightarrow>
                        (let s2 = s1\<lparr>apiMonitor := finishCall (apiMonitor s1)\<rparr>
                         in if isQuotaError e
                            then (case getCache s2 cacheKey of
                                    Some staleData \<Rightarrow> (Inr staleData, s2)
                                  | None \<Rightarrow> (Inl e, s2))
                            else (Inl e, s2)))))"

text \<open>
  \<open>safeGetCachedSheetData\<close>: the catch block calls \<open>setEmergencyMode(true)\<close>, which would
  propagate an error of its own.
\<close>

definition safeGetCachedSheetData ::
  "int \<Rightarrow> (string \<Rightarrow> error + sheet_row list) \<Rightarrow> string \<Rightarrow> service
     \<Rightarrow> (error + sheet_row list) \<times> service" where
  "safeGetCachedSheetData now remote sheetName s =
     (case getCachedSheetData now remote sheetName s of
        (Inr rows, s1) \<Rightarrow> (Inr rows, s1)
      | (Inl e, s1) \<Rightarrow>
          (case (if \<not> emergencyMode s1 then setEmergencyMode True s1 else (None, s1)) of
             (Some e2, s2) \<Rightarrow> (Inl e2, s2)
           | (None, s2) \<Rightarrow>
               (case getCache s2 (cacheKeyOf sheetName) of
                  Some staleData \<Rightarrow> (Inr staleData, s2)
                | None \<Rightarrow> (Inr [], s2))))"


section \<open>The identity matcher\<close>

definition normalizeEmployeeName :: "jsval \<Rightarrow> string" where
  "normalizeEmployeeName name =
     (if \<not> truthy name then []
      else case name of None \<Rightarrow> [] | Some n \<Rightarrow> toLowerCase (collapseSpaces (trim n)))"

definition isNameMatch :: "jsval \<Rightarrow> jsval \<Rightarrow> bool" where
  "isNameMatch inputName compareName =
     (if \<not> truthy inputName \<or> \<not> truthy compareName then False
      else (let normalizedInput = normalizeEmployeeName inputName;
                normalizedCompare = normalizeEmployeeName compareName
            in normalizedInput = normalizedCompare \<or>
               js_includes normalizedInput normalizedCompare \<or>
               js_includes normalizedCompare normalizedInput))"



section \<open>parseInt\<close>

text \<open>
  \<open>parseInt(s)\<close>: leading white space and a sign are skipped, a prefix \<open>0x\<close> selects
  base 16, and the longest run of digits is read; \<open>None\<close> is \<open>NaN\<close>.
\<close>

definition digitOf :: "char \<Rightarrow> nat option" where
  "digitOf c =
     (let n = (of_char c :: nat)
      in if 48 \<le> n \<and> n \<le> 57 then Some (n - 48)
         else if 97 \<le> n \<and> n \<le> 102 then Some (n - 87)
         else if 65 \<le> n \<and> n \<le> 70 then Some (n - 55)
         else None)"

definition isDigitIn :: "nat \<Rightarrow> char \<Rightarrow> bool" where
  "isDigitIn radix c = (case digitOf c of None \<Rightarrow> False | Some d \<Rightarrow> d < radix)"

definition readDigits :: "nat \<Rightarrow> string \<Rightarrow> nat option" where
  "readDigits radix s =
     (let ds = takeWhile (isDigitIn radix) s
      in if ds = [] then None
         else Some (foldl (\<lambda>acc c. acc * radix + (case digitOf c of None \<Rightarrow> 0 | Some d \<Rightarrow> d)) 0 ds))"

definition parseInt :: "string \<Rightarrow> int option" where
  "parseInt s =
     (let s1 = dropWhile is_space s;
          neg = (case s1 of c # _ \<Rightarrow> c = CHR ''-'' | [] \<Rightarrow> False);
          s2 = (case s1 of c # r \<Rightarrow> if c = CHR ''-'' \<or> c = CHR ''+'' then r else s1 | [] \<Rightarrow> []);
          hex = (case s2 of a # b # _ \<Rightarrow> a = CHR ''0'' \<and> (b = CHR ''x'' \<or> b = CHR ''X'') | _ \<Rightarrow> False);
          r = (if hex then readDigits 16 (drop 2 s2) else readDigits 10 s2)
      in case r of None \<Rightarrow> None | Some n \<Rightarrow> Some (if neg then - int n else int n))"


section \<open>Status of an employee\<close>

record work_record =
  row :: sheet_row
  mainRowIndex :: "int option"
  clockIn :: jsval
  systemName :: jsval
  employeeName :: jsval

record employee_status =
  isOnWork :: bool
  workRecord :: "work_record option"

definition notOnWork :: employee_status where
  "notOnWork = \<lparr>isOnWork = False, workRecord = None\<rparr>"

text \<open>\<open>rowRef && !isNaN(parseInt(rowRef))\<close>, giving \<open>parseInt(rowRef)\<close> when it holds.\<close>

definition refIndex :: "jsval \<Rightarrow> int option" where
  "refIndex v = (case v of None \<Rightarrow> None | Some r \<Rightarrow> if r = [] then None else parseInt r)"

definition statusOfRows :: "jsval \<Rightarrow> sheet_row list \<Rightarrow> employee_status" where
  "statusOfRows employee rows =
     (if length rows = 0 then notOnWork
      else case find (\<lambda>r. isNameMatch employee (get r SystemName) \<or>
                           isNameMatch employee (get r EmployeeName)) rows of
             Some wr \<Rightarrow>
               (let rowRef1 = get wr RowRef;
                    rowRef2 = get wr RowInMain;
                    idx = (case refIndex rowRef1 of
                             Some i \<Rightarrow> Some i
                           | None \<Rightarrow> refIndex rowRef2)
                in \<lparr>isOnWork = True,
                    workRecord = Some \<lparr>row = wr, mainRowIndex = idx,
                                       clockIn = get wr ClockInTime,
                                       systemName = get wr SystemName,
                                       employeeName = get wr EmployeeName\<rparr>\<rparr>)
           | None \<Rightarrow> notOnWork)"

text \<open>
  \<open>getEmployeeStatus\<close>: the body runs inside \<open>try\<close>; the \<open>catch\<close> returns the
  not-working status.
\<close>

definition getEmployeeStatus ::
  "int \<Rightarrow> (string \<Rightarrow> error + sheet_row list) \<Rightarrow> jsval \<Rightarrow> service
     \<Rightarrow> employee_status \<times> service" where
  "getEmployeeStatus now remote employee s =
     (case safeGetCachedSheetData now remote ''ON WORK'' s of
        (Inr rows, s1) \<Rightarrow> (statusOfRows employee rows, s1)
      | (Inl e, s1) \<Rightarrow> (notOnWork, s1))"


section \<open>Working hours\<close>

text \<open>
  \<open>calculateWorkingHours\<close>. \<open>momentParse\<close> stands for \<open>moment.tz(s, 'YYYY-MM-DD H:mm:ss',
  CONFIG.TIMEZONE)\<close>: the instant in milliseconds, or \<open>None\<close> when the moment is not valid.
  \<open>now\<close> is \<open>moment().tz(CONFIG.TIMEZONE)\<close>. The difference in hours is a floating-point
  number in the code and a rational here.
\<close>

definition calculateWorkingHours ::
  "(string \<Rightarrow> int option) \<Rightarrow> int \<Rightarrow> jsval \<Rightarrow> jsval \<Rightarrow> rat" where
  "calculateWorkingHours momentParse now clockInTime clockOutTime =
     (case clockInTime of
        None \<Rightarrow> 0
      | Some ci \<Rightarrow>
          if ci = [] then 0
          else (let clockInMoment = momentParse ci;
                    endTimeMoment = (case clockOutTime of
                                       None \<Rightarrow> Some now
                                     | Some co \<Rightarrow> if co = [] then Some now else momentParse co)
                in case clockInMoment of
                     None \<Rightarrow> 0
                   | Some tin \<Rightarrow>
                       (case endTimeMoment of
                          None \<Rightarrow> 0
                        | Some tend \<Rightarrow>
                            (let hours = rat_of_int (tend - tin) / 3600000
                             in if hours \<ge> 0 then hours else 0))))"

text \<open>Decimal digits of a natural number, and \<open>x.toFixed(2)\<close> (ties round up in magnitude).\<close>

definition digitChar :: "nat \<Rightarrow> char" where
  "digitChar d = char_of (48 + d)"

fun showNat :: "nat \<Rightarrow> string" where
  "showNat n = (if n < 10 then [digitChar n] else showNat (n div 10) @ [digitChar (n mod 10)])"

definition toFixed2 :: "rat \<Rightarrow> string" where
  "toFixed2 x =
     (let n = nat \<lfloor>\<bar>x\<bar> * 100 + 1 / 2\<rfloor>;
          body = showNat (n div 100) @ ''.'' @ [digitChar (n mod 100 div 10), digitChar (n mod 10)]
      in if x < 0 then ''-'' @ body else body)"


section \<open>The parsing of clock texts\<close>

text \<open>
  \<open>moment.tz(s, 'YYYY-MM-DD H:mm:ss', 'Asia/Bangkok')\<close> as the moment library computes it:
  the parse is not strict. The format is the token list \<open>YYYY - MM - DD\<close>, a space,
  \<open>H : mm : ss\<close>, and the tokens are taken from left to right on what is left of the input.
  \<^item> A numeric token takes the first run of decimal digits found anywhere in the rest, at
    most four digits for \<open>YYYY\<close> and two for the others, and drops what precedes it. When
    the rest holds no digit the token is unused and the rest stays as it is.
  \<^item> A literal token drops the rest up to and including its first occurrence; when it does
    not occur the rest stays as it is.
  \<^item> A year of exactly two digits is read by \<open>parseTwoDigitYear\<close>.
  \<^item> A moment with no token parsed is not valid. When the year is given, a month that is
    not given is January, a day that is not given is 1, and hour, minute and second that
    are not given are 0.
  \<^item> A month outside 1 to 12, a day outside the month, an hour over 24 (or 24 with minutes
    or seconds), a minute or a second over 59 make the moment not valid.
  \<^item> The local time is read in the zone Asia/Bangkok: seven hours ahead of UTC from
    1 April 1920 on, and the local mean time of 6 h 42 min 4 s before.
\<close>

definition isDecimal :: "char \<Rightarrow> bool" where
  "isDecimal c = isDigitIn 10 c"

definition decimalOf :: "string \<Rightarrow> nat" where
  "decimalOf ds =
     foldl (\<lambda>acc c. acc * 10 + (case digitOf c of None \<Rightarrow> 0 | Some d \<Rightarrow> d)) 0 ds"

definition numberToken :: "nat \<Rightarrow> string \<Rightarrow> string option \<times> string" where
  "numberToken width s =
     (let r = dropWhile (\<lambda>c. \<not> isDecimal c) s
      in if r = [] then (None, s)
         else (let parsedInput = takeWhile isDecimal (take width r)
               in (Some parsedInput, drop (length parsedInput) r)))"

definition literalToken :: "char \<Rightarrow> string \<Rightarrow> string" where
  "literalToken c s = (if c \<in> set s then tl (dropWhile (\<lambda>x. x \<noteq> c) s) else s)"

definition parseTwoDigitYear :: "nat \<Rightarrow> nat" where
  "parseTwoDigitYear n = n + (if n > 68 then 1900 else 2000)"

definition yearOf :: "string \<Rightarrow> nat" where
  "yearOf input =
     (if length input = 2 then parseTwoDigitYear (decimalOf input) else decimalOf input)"

definition isLeapYear :: "nat \<Rightarrow> bool" where
  "isLeapYear y = ((y mod 4 = 0 \<and> y mod 100 \<noteq> 0) \<or> y mod 400 = 0)"

definition daysInMonth :: "nat \<Rightarrow> nat \<Rightarrow> nat" where
  "daysInMonth y m =
     (if m = 2 then (if isLeapYear y then 29 else 28) else 31 - ((m - 1) mod 7) mod 2)"

text \<open>The number of days from 1 January 1970 to a date of the Gregorian calendar.\<close>

definition daysFromCivil :: "nat \<Rightarrow> nat \<Rightarrow> nat \<Rightarrow> int" where
  "daysFromCivil y m d =
     (let y1 = (if m \<le> 2 then int y - 1 else int y);
          era = y1 div 400;
          yoe = y1 - era * 400;
          mp = (if m > 2 then int m - 3 else int m + 9);
          doy = (153 * mp + 2) div 5 + int d - 1;
          doe = yoe * 365 + yoe div 4 - yoe div 100 + doy
      in era * 146097 + doe - 719468)"

text \<open>The offset of Asia/Bangkok, in milliseconds, at a local time given as if it were UTC.\<close>

definition bangkokOffset :: "int \<Rightarrow> int" where
  "bangkokOffset localMs = (if localMs < - 1570060800000 then 24124000 else 25200000)"

definition momentTzParse :: "string \<Rightarrow> int option" where
  "momentTzParse s =
     (let (yy, s1) = numberToken 4 s;
          s2 = literalToken CHR ''-'' s1;
          (mo, s3) = numberToken 2 s2;
          s4 = literalToken CHR ''-'' s3;
          (dd, s5) = numberToken 2 s4;
          s6 = literalToken CHR '' '' s5;
          (hh, s7) = numberToken 2 s6;
          s8 = literalToken CHR '':'' s7;
          (mi, s9) = numberToken 2 s8;
          s10 = literalToken CHR '':'' s9;
          (ss, s11) = numberToken 2 s10
      in case yy of
           None \<Rightarrow> None
         | Some yi \<Rightarrow>
             (let year = yearOf yi;
                  month = (case mo of None \<Rightarrow> 1 | Some i \<Rightarrow> decimalOf i);
                  day = (case dd of None \<Rightarrow> 1 | Some i \<Rightarrow> decimalOf i);
                  hour = (case hh of None \<Rightarrow> 0 | Some i \<Rightarrow> decimalOf i);
                  minute = (case mi of None \<Rightarrow> 0 | Some i \<Rightarrow> decimalOf i);
                  second = (case ss of None \<Rightarrow> 0 | Some i \<Rightarrow> decimalOf i)
              in if month < 1 \<or> 12 < month then None
                 else if day < 1 \<or> daysInMonth year month < day then None
                 else if 24 < hour \<or> (hour = 24 \<and> \<not> (minute = 0 \<and> second = 0)) then None
                 else if 59 < minute then None
                 else if 59 < second then None
                 else (let localMs = (((daysFromCivil year month day * 24 + int hour) * 60
                                        + int minute) * 60 + int second) * 1000
                       in Some (localMs - bangkokOffset localMs))))"


section \<open>Collaborators of one operation\<close>

text \<open>
  What an operation reads from outside the service, as one record:
  \<^item> \<open>clock\<close>: the clock reading, \<open>Date.now()\<close> and \<open>moment()\<close>;
  \<^item> \<open>getRows\<close>: the remote read of a sheet (rows or the error thrown);
  \<^item> \<open>momentTz\<close>: \<open>moment.tz(s, 'YYYY-MM-DD H:mm:ss', CONFIG.TIMEZONE)\<close>, \<open>None\<close> when not valid;
  \<^item> \<open>momentOf\<close>: \<open>moment(s)\<close>, \<open>None\<close> when not valid;
  \<^item> \<open>formatDMY\<close>, \<open>formatYMD\<close>, \<open>formatHMS\<close>: \<open>format('DD/MM/YYYY HH:mm:ss')\<close>,
    \<open>format('YYYY-MM-DD')\<close> and \<open>format('HH:mm:ss')\<close> of a valid moment in the time zone;
  \<^item> \<open>momentSet\<close>: \<open>m.clone().set({hour, minute, second, millisecond})\<close>;
  \<^item> \<open>newDate\<close>: the time value of \<open>new Date(s)\<close>, \<open>None\<close> for an invalid date;
  \<^item> \<open>getLocationName\<close>: the reverse geocoding, which never throws;
  \<^item> \<open>getSheetError\<close>, \<open>saveError\<close>, \<open>deleteError\<close>: the error thrown, if any, by
    \<open>getSheet\<close>, by loading and saving cells, and by \<open>row.delete()\<close>.
\<close>

record env =
  clock :: int
  getRows :: "string \<Rightarrow> error + sheet_row list"
  momentTz :: "string \<Rightarrow> int option"
  momentOf :: "string \<Rightarrow> int option"
  formatDMY :: "int \<Rightarrow> string"
  formatYMD :: "int \<Rightarrow> string"
  formatHMS :: "int \<Rightarrow> string"
  momentSet :: "int \<Rightarrow> nat \<Rightarrow> nat \<Rightarrow> nat \<Rightarrow> nat \<Rightarrow> int"
  newDate :: "string \<Rightarrow> int option"
  getLocationName :: "string \<Rightarrow> string \<Rightarrow> string"
  getSheetError :: "string \<Rightarrow> error option"
  saveError :: "error option"
  deleteError :: "sheet_row \<Rightarrow> error option"

text \<open>Formatting a moment that may be invalid gives the text \<open>Invalid date\<close>.\<close>

definition formatOr :: "(int \<Rightarrow> string) \<Rightarrow> int option \<Rightarrow> string" where
  "formatOr f m = (case m of None \<Rightarrow> ''Invalid date'' | Some t \<Rightarrow> f t)"

text \<open>
  The spreadsheet as the writes see it: the cells of MAIN by A1 address (column letter and
  row number), and the rows of ON WORK.
\<close>

type_synonym a1 = "char \<times> int"

record sheets =
  mainCells :: "a1 \<Rightarrow> jsval"
  onWork :: "sheet_row list"

type_synonym updates = "(a1 \<times> string) list"

definition applyUpdates :: "updates \<Rightarrow> (a1 \<Rightarrow> jsval) \<Rightarrow> (a1 \<Rightarrow> jsval)" where
  "applyUpdates us cells = foldl (\<lambda>c u. c(fst u := Some (snd u))) cells us"

text \<open>
  \<open>getSheet(MAIN)\<close>, then for each update \<open>loadCells\<close> and the assignment of the cell value,
  then \<open>saveUpdatedCells\<close>: all the cells are saved, or an error is thrown and none is.
\<close>

definition writeMain :: "env \<Rightarrow> updates \<Rightarrow> sheets \<Rightarrow> error + sheets" where
  "writeMain e us st =
     (case getSheetError e ''MAIN'' of
        Some err \<Rightarrow> Inl err
      | None \<Rightarrow>
          (case saveError e of
             Some err \<Rightarrow> Inl err
           | None \<Rightarrow> Inr (st\<lparr>mainCells := applyUpdates us (mainCells st)\<rparr>)))"

text \<open>\<open>row.delete()\<close> on a row of ON WORK.\<close>

definition deleteRow :: "env \<Rightarrow> sheet_row \<Rightarrow> sheets \<Rightarrow> error + sheets" where
  "deleteRow e r st =
     (case deleteError e r of
        Some err \<Rightarrow> Inl err
      | None \<Rightarrow> Inr (st\<lparr>onWork := filter (\<lambda>x. rowNumber x \<noteq> rowNumber r) (onWork st)\<rparr>))"

text \<open>Consecutive \<open>clearCache(key)\<close> calls: the first error ends the sequence.\<close>

fun clearCaches :: "string list \<Rightarrow> service \<Rightarrow> error option \<times> service" where
  "clearCaches [] s = (None, s)"
| "clearCaches (k # ks) s =
     (case clearCache k s of Inl err \<Rightarrow> (Some err, s) | Inr s1 \<Rightarrow> clearCaches ks s1)"

definition formatTime :: "env \<Rightarrow> string \<Rightarrow> string" where
  "formatTime e date =
     (if js_includes date '' '' \<and> length date = 19
      then takeWhile (\<lambda>c. c \<noteq> CHR '' '') (drop 1 (dropWhile (\<lambda>c. c \<noteq> CHR '' '') date))
      else (case momentOf e date of Some t \<Rightarrow> formatHMS e t | None \<Rightarrow> date))"


section \<open>clockOut\<close>

record clock_data =
  employee :: jsval
  lat :: string
  lon :: string
  line_name :: jsval
  mock_time :: jsval

text \<open>\<open>mock_time ? moment(mock_time)...format(...) : moment()...format(...)\<close>\<close>

definition resolveTimestamp :: "env \<Rightarrow> jsval \<Rightarrow> string" where
  "resolveTimestamp e mock =
     (case mock of
        None \<Rightarrow> formatDMY e (clock e)
      | Some m \<Rightarrow> if m = [] then formatDMY e (clock e) else formatOr (formatDMY e) (momentOf e m))"

text \<open>Stage 1: the stored row index, kept only when the name of that row matches.\<close>

definition findByIndex :: "jsval \<Rightarrow> work_record \<Rightarrow> sheet_row list \<Rightarrow> sheet_row option" where
  "findByIndex emp wr rows =
     (case mainRowIndex wr of
        None \<Rightarrow> None
      | Some idx \<Rightarrow>
          if idx \<noteq> 0 \<and> idx > 1
          then (let targetIndex = idx - 2
                in if targetIndex \<ge> 0 \<and> targetIndex < int (length rows)
                   then (let candidateRow = rows ! nat targetIndex
                         in if isNameMatch emp (get candidateRow EmployeeName)
                            then Some candidateRow else None)
                   else None)
          else None)"

definition candidateRows :: "jsval \<Rightarrow> sheet_row list \<Rightarrow> sheet_row list" where
  "candidateRows emp rows =
     filter (\<lambda>r. isNameMatch emp (get r EmployeeName) \<and> \<not> truthy (get r ClockOutTime)) rows"

text \<open>
  One round of the \<open>forEach\<close> of stage 3. The accumulator is \<open>closestRow\<close> with
  \<open>minTimeDiff\<close>; \<open>None\<close> is the initial \<open>null\<close> with \<open>Infinity\<close>. An invalid date makes the
  difference \<open>NaN\<close>, which is below nothing.
\<close>

definition closestStep ::
  "env \<Rightarrow> jsval \<Rightarrow> (sheet_row \<times> int) option \<Rightarrow> sheet_row \<Rightarrow> (sheet_row \<times> int) option" where
  "closestStep e clockInTime acc r =
     (case (get r ClockInTime, clockInTime) of
        (Some rowClockIn, Some ci) \<Rightarrow>
          if rowClockIn \<noteq> [] \<and> ci \<noteq> []
          then (case (newDate e rowClockIn, newDate e ci) of
                  (Some a, Some b) \<Rightarrow>
                    (let timeDiff = \<bar>a - b\<bar>
                     in case acc of
                          None \<Rightarrow> Some (r, timeDiff)
                        | Some (closestRow, minTimeDiff) \<Rightarrow>
                            if timeDiff < minTimeDiff then Some (r, timeDiff) else acc)
                | _ \<Rightarrow> acc)
          else acc
      | _ \<Rightarrow> acc)"

text \<open>Stages 2 and 3: the search by name among the rows with no clock-out.\<close>

definition findByName :: "env \<Rightarrow> jsval \<Rightarrow> jsval \<Rightarrow> sheet_row list \<Rightarrow> sheet_row option" where
  "findByName e emp clockInTime rows =
     (case candidateRows emp rows of
        [] \<Rightarrow> None
      | [r] \<Rightarrow> Some r
      | cs \<Rightarrow>
          (case foldl (closestStep e clockInTime) None cs of
             None \<Rightarrow> None
           | Some (closestRow, minTimeDiff) \<Rightarrow>
               if minTimeDiff < 300000 then Some closestRow else None))"

text \<open>Stage 4: from the last row backward, the first open row with a matching name.\<close>

definition findLatest :: "jsval \<Rightarrow> sheet_row list \<Rightarrow> sheet_row option" where
  "findLatest emp rows =
     find (\<lambda>r. isNameMatch emp (get r EmployeeName) \<and> \<not> truthy (get r ClockOutTime)) (rev rows)"

definition locateMainRow ::
  "env \<Rightarrow> jsval \<Rightarrow> work_record \<Rightarrow> sheet_row list \<Rightarrow> sheet_row option" where
  "locateMainRow e emp wr rows =
     (case findByIndex emp wr rows of
        Some r \<Rightarrow> Some r
      | None \<Rightarrow>
          (case findByName e emp (clockIn wr) rows of
             Some r \<Rightarrow> Some r
           | None \<Rightarrow> findLatest emp rows))"

text \<open>The cells written on clock-out: columns F, I, J and K of the row.\<close>

definition clockOutUpdates :: "int \<Rightarrow> string \<Rightarrow> string \<Rightarrow> string \<Rightarrow> string \<Rightarrow> rat \<Rightarrow> updates" where
  "clockOutUpdates n ts la lo locName hoursWorked =
     [((CHR ''F'', n), ts),
      ((CHR ''I'', n), la @ '','' @ lo),
      ((CHR ''J'', n), locName),
      ((CHR ''K'', n), toFixed2 hoursWorked)]"

text \<open>The prefix of the error raised when the update of MAIN fails.\<close>

definition updateFailedPrefix :: string where
  "updateFailedPrefix =
     [CHR 0xE0, CHR 0xB9, CHR 0x84, CHR 0xE0, CHR 0xB8, CHR 0xA1, CHR 0xE0, CHR 0xB9,
       CHR 0x88, CHR 0xE0, CHR 0xB8, CHR 0xAA, CHR 0xE0, CHR 0xB8, CHR 0xB2, CHR 0xE0,
       CHR 0xB8, CHR 0xA1, CHR 0xE0, CHR 0xB8, CHR 0xB2, CHR 0xE0, CHR 0xB8, CHR 0xA3,
       CHR 0xE0, CHR 0xB8, CHR 0x96, CHR 0xE0, CHR 0xB8, CHR 0xAD, CHR 0xE0, CHR 0xB8,
       CHR 0xB1, CHR 0xE0, CHR 0xB8, CHR 0x9B, CHR 0xE0, CHR 0xB9, CHR 0x80, CHR 0xE0,
       CHR 0xB8, CHR 0x94, CHR 0xE0, CHR 0xB8, CHR 0x95, CHR 0xE0, CHR 0xB8, CHR 0x82,
       CHR 0xE0, CHR 0xB9, CHR 0x89, CHR 0xE0, CHR 0xB8, CHR 0xAD, CHR 0xE0, CHR 0xB8,
       CHR 0xA1, CHR 0xE0, CHR 0xB8, CHR 0xB9, CHR 0xE0, CHR 0xB8, CHR 0xA5, CHR 0xE0,
       CHR 0xB9, CHR 0x84, CHR 0xE0, CHR 0xB8, CHR 0x94, CHR 0xE0, CHR 0xB9, CHR 0x89,
       CHR 0x3A, CHR 0x20]"

datatype clock_out_result =
    ClockedOut string string
  | NotClockedIn "(jsval \<times> jsval) list"
  | NoMatchingRecord
  | ClockOutError string

text \<open>
  The result constructors: \<open>ClockedOut time hours\<close> is the success object,
  \<open>NotClockedIn suggestions\<close> the rejection with \<open>currentStatus: 'not_clocked_in'\<close>,
  \<open>NoMatchingRecord\<close> the unsuccessful result when no row of MAIN is found, and
  \<open>ClockOutError m\<close> the result of the outer \<open>catch\<close> for an error with message \<open>m\<close>.
\<close>

definition suggestionsOf :: "jsval \<Rightarrow> sheet_row list \<Rightarrow> (jsval \<times> jsval) list" where
  "suggestionsOf emp rows =
     filter (\<lambda>p. isNameMatch emp (fst p) \<or> isNameMatch emp (snd p))
       (filter (\<lambda>p. truthy (fst p) \<or> truthy (snd p))
          (map (\<lambda>r. (get r SystemName, get r EmployeeName)) rows))"

definition clockOut ::
  "env \<Rightarrow> clock_data \<Rightarrow> service \<times> sheets \<Rightarrow> clock_out_result \<times> service \<times> sheets" where
  "clockOut e d sst =
     (let s = fst sst; st = snd sst;
          emp = employee d;
          r0 = getEmployeeStatus (clock e) (getRows e) emp s;
          employeeStatus = fst r0; s1 = snd r0
      in if \<not> isOnWork employeeStatus
         then (case getCachedSheetData (clock e) (getRows e) ''ON WORK'' s1 of
                 (Inl err, s2) \<Rightarrow> (ClockOutError (message err), s2, st)
               | (Inr rows, s2) \<Rightarrow> (NotClockedIn (suggestionsOf emp rows), s2, st))
         else
           (case workRecord employeeStatus of
              None \<Rightarrow> (ClockOutError ''Cannot read properties of null'', s1, st)
            | Some wr \<Rightarrow>
                (let ts = resolveTimestamp e (mock_time d);
                     clockInTime = clockIn wr;
                     hoursWorked = calculateWorkingHours (momentTz e) (clock e) clockInTime
                                     (Some ts);
                     locName = getLocationName e (lat d) (lon d)
                 in case getSheetError e ''MAIN'' of
                      Some err \<Rightarrow> (ClockOutError (message err), s1, st)
                    | None \<Rightarrow>
                        (case getCachedSheetData (clock e) (getRows e) ''MAIN'' s1 of
                           (Inl err, s2) \<Rightarrow> (ClockOutError (message err), s2, st)
                         | (Inr rows, s2) \<Rightarrow>
                             (case locateMainRow e emp wr rows of
                                None \<Rightarrow> (NoMatchingRecord, s2, st)
                              | Some mainRow \<Rightarrow>
                                  (case writeMain e
                                          (clockOutUpdates (int (rowNumber mainRow)) ts
                                             (lat d) (lon d) locName hoursWorked) st of
                                     Inl err \<Rightarrow>
                                       (ClockOutError (updateFailedPrefix @ message err), s2, st)
                                   | Inr st1 \<Rightarrow>
                                       (case deleteRow e (row wr) st1 of
                                          Inl deleteErr \<Rightarrow>
                                            (ClockedOut (formatTime e ts)
                                               (toFixed2 hoursWorked), s2, st1)
                                        | Inr st2 \<Rightarrow>
                                            (ClockedOut (formatTime e ts)
                                               (toFixed2 hoursWorked),
                                             snd (clearCaches [''onwork'', ''main'', ''stats''] s2),
                                             st2))))))))"


section \<open>clockIn\<close>

datatype clock_in_result =
    ClockedIn string
  | AlreadyClockedIn jsval
  | ClockInError string

text \<open>
  \<open>clockIn\<close>. \<open>addRows d ts locName st\<close> stands for the two remote appends
  (\<open>mainSheet.addRow\<close>, then \<open>onWorkSheet.addRow\<close> with the row number of the new MAIN
  row): the sheets after them, or the error thrown. \<open>AlreadyClockedIn\<close> is the rejection
  with \<open>currentStatus: 'clocked_in'\<close>, \<open>ClockInError m\<close> the result of the outer \<open>catch\<close>.
\<close>

definition clockIn ::
  "env \<Rightarrow> (clock_data \<Rightarrow> string \<Rightarrow> string \<Rightarrow> sheets \<Rightarrow> error + sheets) \<Rightarrow> clock_data
     \<Rightarrow> service \<times> sheets \<Rightarrow> clock_in_result \<times> service \<times> sheets" where
  "clockIn e addRows d sst =
     (let s = fst sst; st = snd sst;
          emp = employee d;
          r0 = getEmployeeStatus (clock e) (getRows e) emp s;
          employeeStatus = fst r0; s1 = snd r0
      in if isOnWork employeeStatus
         then (AlreadyClockedIn (case workRecord employeeStatus of
                                   None \<Rightarrow> None | Some wr \<Rightarrow> work_record.clockIn wr), s1, st)
         else (let ts = resolveTimestamp e (mock_time d);
                   locName = getLocationName e (lat d) (lon d)
               in case addRows d ts locName st of
                    Inl err \<Rightarrow> (ClockInError (message err), s1, st)
                  | Inr st1 \<Rightarrow>
                      (case clearCaches [''onwork'', ''main'', ''stats''] s1 of
                         (Some err, s2) \<Rightarrow> (ClockInError (message err), s2, st1)
                       | (None, s2) \<Rightarrow> (ClockedIn (formatTime e ts), s2, st1))))"


section \<open>The missed-checkout sweeper\<close>















section \<open>Auxiliary notions for the statements\<close>

text \<open>
  The state after a granted acquisition of \<open>getCachedSheetData\<close> whose remote read has
  ended: the call is logged and the burst count is released.
\<close>

definition afterCall :: "int \<Rightarrow> string \<Rightarrow> service \<Rightarrow> service" where
  "afterCall now sheetName s =
     s\<lparr>apiMonitor := finishCall (logAPICall now (''getCachedSheetData:'' @ sheetName)
          (snd (canMakeAPICall now (apiMonitor s))))\<rparr>"

text \<open>
  The time difference that stage 3 computes for a candidate row: \<open>None\<close> when the row is
  passed over (a clock-in value is missing, or a date is invalid and the difference is
  \<open>NaN\<close>).
\<close>

definition timeDiffOf :: "env \<Rightarrow> jsval \<Rightarrow> sheet_row \<Rightarrow> int option" where
  "timeDiffOf e clockInTime r =
     (case (get r ClockInTime, clockInTime) of
        (Some rowClockIn, Some ci) \<Rightarrow>
          if rowClockIn \<noteq> [] \<and> ci \<noteq> []
          then (case (newDate e rowClockIn, newDate e ci) of
                  (Some a, Some b) \<Rightarrow> Some \<bar>a - b\<bar>
                | _ \<Rightarrow> None)
          else None
      | _ \<Rightarrow> None)"

text \<open>The values that \<open>clockOut\<close> computes for a request and an open session.\<close>

definition hoursOf :: "env \<Rightarrow> clock_data \<Rightarrow> work_record \<Rightarrow> rat" where
  "hoursOf e d wr =
     calculateWorkingHours (momentTz e) (clock e) (work_record.clockIn wr)
       (Some (resolveTimestamp e (mock_time d)))"

definition cellsOf :: "env \<Rightarrow> clock_data \<Rightarrow> work_record \<Rightarrow> sheet_row \<Rightarrow> updates" where
  "cellsOf e d wr mainRow =
     clockOutUpdates (int (rowNumber mainRow)) (resolveTimestamp e (mock_time d))
       (lat d) (lon d) (getLocationName e (lat d) (lon d)) (hoursOf e d wr)"

definition successOf :: "env \<Rightarrow> clock_data \<Rightarrow> work_record \<Rightarrow> clock_out_result" where
  "successOf e d wr =
     ClockedOut (formatTime e (resolveTimestamp e (mock_time d))) (toFixed2 (hoursOf e d wr))"

text \<open>
  The effect of a clock-out on the cells of MAIN: in row \<open>n\<close> the cells F, I, J and K hold
  the clock-out time, the coordinates, the location label and the hours; the clock-in cell
  D of that row and every other cell of the sheet are as before.
\<close>

definition wroteFourCells ::
  "(a1 \<Rightarrow> jsval) \<Rightarrow> (a1 \<Rightarrow> jsval) \<Rightarrow> int \<Rightarrow> string \<Rightarrow> string \<Rightarrow> string \<Rightarrow> string \<Rightarrow> bool" where
  "wroteFourCells before after n ts coords label hrs =
     (after (CHR ''F'', n) = Some ts
      \<and> after (CHR ''I'', n) = Some coords
      \<and> after (CHR ''J'', n) = Some label
      \<and> after (CHR ''K'', n) = Some hrs
      \<and> after (CHR ''D'', n) = before (CHR ''D'', n)
      \<and> (\<forall>c r. (c, r) \<notin> {(CHR ''F'', n), (CHR ''I'', n), (CHR ''J'', n), (CHR ''K'', n)}
            \<longrightarrow> after (c, r) = before (c, r)))"








text \<open>A row object with the given row number and cells.\<close>

definition mkRow :: "nat \<Rightarrow> (header \<times> string) list \<Rightarrow> sheet_row" where
  "mkRow n cells = \<lparr>rowNumber = n, get = map_of cells\<rparr>"

text \<open>A new service with a new limiter, both created at time 0.\<close>

definition newService :: service where
  "newService = GoogleSheetsService_new (APIMonitor_new 0)"


text \<open>
  The time values of \<open>new Date(s)\<close> for the clock-in texts of the examples, on a server
  whose zone is Asia/Bangkok: the instants, in milliseconds since the epoch, of four local
  times seven hours ahead of UTC.
\<close>

definition exampleDate :: "string \<Rightarrow> int option" where
  "exampleDate = map_of
     [(''2024-12-31 08:00:00'', 1735606800000),
      (''2025-01-01 08:00:00'', 1735693200000),
      (''2025-01-01 17:30:00'', 1735727400000),
      (''2025-01-01 23:59:59'', 1735750799000)]"


text \<open>
  Example data. ON WORK holds one open session, of Somchai Jones, clocked in on
  2025-01-01 at 08:00:00 and pointing at row 3 of MAIN. MAIN holds two rows of that
  employee: row 2 is closed, row 3 is open.
\<close>

definition exampleOnWork :: "sheet_row list" where
  "exampleOnWork =
     [mkRow 3 [(SystemName, ''Somchai Jones''), (EmployeeName, ''Somchai Jones''),
               (ClockInTime, ''2025-01-01 08:00:00''), (RowRef, ''3''), (RowInMain, ''3'')]]"

definition exampleMain :: "sheet_row list" where
  "exampleMain =
     [mkRow 2 [(EmployeeName, ''Somchai Jones''), (ClockInTime, ''2024-12-31 08:00:00''),
               (ClockOutTime, ''2024-12-31 17:00:00'')],
      mkRow 3 [(EmployeeName, ''Somchai Jones''), (ClockInTime, ''2025-01-01 08:00:00'')]]"

definition exampleRemote :: "string \<Rightarrow> error + sheet_row list" where
  "exampleRemote n =
     (if n = ''ON WORK'' then Inr exampleOnWork
      else if n = ''MAIN'' then Inr exampleMain
      else Inl (Error (''Sheet '' @ n @ '' not found'')))"

text \<open>A remote store with the given rows of ON WORK and of MAIN.\<close>

definition remoteOf :: "sheet_row list \<Rightarrow> sheet_row list \<Rightarrow> string \<Rightarrow> error + sheet_row list" where
  "remoteOf onw mainRows n =
     (if n = ''ON WORK'' then Inr onw
      else if n = ''MAIN'' then Inr mainRows
      else Inl (Error (''Sheet '' @ n @ '' not found'')))"

text \<open>The same open session with a stored index that points at row 2 of MAIN.\<close>

definition exampleOnWorkStale :: "sheet_row list" where
  "exampleOnWorkStale =
     [mkRow 3 [(SystemName, ''Somchai Jones''), (EmployeeName, ''Somchai Jones''),
               (ClockInTime, ''2025-01-01 08:00:00''), (RowRef, ''2''), (RowInMain, ''2'')]]"

text \<open>A MAIN sheet whose only row is closed, and one with two open rows of the employee.\<close>

definition exampleMainClosed :: "sheet_row list" where
  "exampleMainClosed =
     [mkRow 2 [(EmployeeName, ''Somchai Jones''), (ClockInTime, ''2024-12-31 08:00:00''),
               (ClockOutTime, ''2024-12-31 17:00:00'')]]"

definition exampleMainTwoOpen :: "sheet_row list" where
  "exampleMainTwoOpen =
     [mkRow 2 [(EmployeeName, ''Somchai Jones''), (ClockInTime, ''2025-01-01 17:30:00'')],
      mkRow 3 [(EmployeeName, ''Somchai Jones''), (ClockInTime, ''2025-01-01 08:00:00'')]]"

text \<open>An open session of the example employee with a given stored index and clock-in.\<close>

definition sessionOf :: "int option \<Rightarrow> string \<Rightarrow> work_record" where
  "sessionOf idx ci =
     \<lparr>row = mkRow 3 [(SystemName, ''Somchai Jones''), (EmployeeName, ''Somchai Jones''),
                     (ClockInTime, ci), (RowRef, ''3''), (RowInMain, ''3'')],
      mainRowIndex = idx, clockIn = Some ci,
      systemName = Some ''Somchai Jones'', employeeName = Some ''Somchai Jones''\<rparr>"

text \<open>A remote store that cannot be read.\<close>

definition remoteDown :: "string \<Rightarrow> error + sheet_row list" where
  "remoteDown n = Inl (Error (''Sheet '' @ n @ '' not found''))"

text \<open>
  Example collaborators, for a given remote read: the clock stands at 5000 ms, the
  current time prints as 01/01/2025 17:30:00, clock texts are parsed by \<open>momentTzParse\<close>,
  no remote write fails.
\<close>

definition exampleEnv :: "(string \<Rightarrow> error + sheet_row list) \<Rightarrow> env" where
  "exampleEnv r =
     \<lparr>clock = 5000, getRows = r, momentTz = momentTzParse, momentOf = (\<lambda>s. None),
      formatDMY = (\<lambda>t. ''01/01/2025 17:30:00''), formatYMD = (\<lambda>t. ''2025-01-01''),
      formatHMS = (\<lambda>t. ''17:30:00''), momentSet = (\<lambda>t h m sec ms. t),
      newDate = exampleDate, getLocationName = (\<lambda>a b. a @ '', '' @ b),
      getSheetError = (\<lambda>n. None), saveError = None, deleteError = (\<lambda>r. None)\<rparr>"

definition exampleData :: clock_data where
  "exampleData =
     \<lparr>employee = Some ''somchai  jones'', lat = ''15.1'', lon = ''104.2'',
      line_name = None, mock_time = None\<rparr>"

text \<open>The cells of MAIN before the clock-out: row 3 holds the name and the clock-in.\<close>

definition exampleCells :: "a1 \<Rightarrow> jsval" where
  "exampleCells a =
     (if a = (CHR ''A'', 3) then Some ''Somchai Jones''
      else if a = (CHR ''D'', 3) then Some ''2025-01-01 08:00:00''
      else None)"

definition exampleSheets :: sheets where
  "exampleSheets = \<lparr>mainCells = exampleCells, onWork = exampleOnWork\<rparr>"

text \<open>Example appends of \<open>clockIn\<close>: the new open session is added to ON WORK.\<close>

definition exampleAddRows :: "clock_data \<Rightarrow> string \<Rightarrow> string \<Rightarrow> sheets \<Rightarrow> error + sheets" where
  "exampleAddRows d ts locName st =
     Inr (st\<lparr>onWork := onWork st @
            [\<lparr>rowNumber = 4,
              get = (\<lambda>h. if h = EmployeeName \<or> h = SystemName then employee d
                          else if h = ClockInTime then Some ts
                          else if h = RowRef \<or> h = RowInMain then Some ''4''
                          else None)\<rparr>]\<rparr>)"










section \<open>Properties of the limiter\<close>

lemma callsWithin_le: "callsWithin w now m \<le> length (apiCalls m)"
  by (simp add: callsWithin_def)

lemma canMakeAPICall_denied:
  assumes "currentBurst m \<ge> burstLimit m \<or> callsWithin 60000 now m \<ge> maxCallsPerMinute m
           \<or> callsWithin 3600000 now m \<ge> maxCallsPerHour m"
  shows "canMakeAPICall now m = (False, m)"
proof -
  have le: "callsWithin 3600000 now m \<le> length (apiCalls m)" by (rule callsWithin_le)
  consider (burst) "currentBurst m \<ge> burstLimit m"
    | (minute) "callsWithin 60000 now m \<ge> maxCallsPerMinute m"
    | (hour) "callsWithin 3600000 now m \<ge> maxCallsPerHour m"
    using assms by blast
  then show ?thesis
  proof cases
    case burst
    then show ?thesis by (simp add: canMakeAPICall_def Let_def)
  next
    case minute
    then show ?thesis by (simp add: canMakeAPICall_def callsWithin_def Let_def)
  next
    case hour
    with le have "maxCallsPerHour m \<le> length (apiCalls m)" by linarith
    then show ?thesis by (simp add: canMakeAPICall_def Let_def)
  qed
qed

lemma canMakeAPICall_granted:
  assumes "fst (canMakeAPICall now m)"
  shows "canMakeAPICall now m = (True, m\<lparr>currentBurst := currentBurst m + 1\<rparr>)"
  using assms by (auto simp: canMakeAPICall_def Let_def split: if_splits)

lemma logAPICall_records:
  "apiCalls (logAPICall now operation m) =
     filter (\<lambda>call. now - fst call < 3600000) (apiCalls m) @ [(now, operation)]"
  by (simp add: logAPICall_def)

lemma canMakeAPICall_after_window:
  assumes "callsWithin 60000 now m = 0" "currentBurst m < burstLimit m"
    "0 < maxCallsPerMinute m" "length (apiCalls m) < maxCallsPerHour m"
  shows "fst (canMakeAPICall now m)"
  using assms by (auto simp: canMakeAPICall_def callsWithin_def Let_def)

text \<open>
  C4, as the code has it. \<open>canMakeAPICall\<close> returns false, and changes nothing, whenever
  the burst count has reached the burst ceiling, or the calls logged in the trailing 60
  seconds have reached the per-minute ceiling, or the calls logged in the trailing 3600
  seconds have reached the per-hour ceiling. When it returns true it has incremented the
  burst count and left the call log as it was; the timestamped entry is recorded by
  \<open>logAPICall\<close>, which the callers run next. So once as many calls as the per-minute
  ceiling are logged within the last minute the next acquisition is denied, and when no
  logged call is younger than a minute (with the burst count below its ceiling and fewer
  logged calls than the per-hour ceiling) acquisition succeeds again.
\<close>

theorem canMakeAPICall_limits:
  "((burstLimit m \<le> currentBurst m \<or> maxCallsPerMinute m \<le> callsWithin 60000 now m
       \<or> maxCallsPerHour m \<le> callsWithin 3600000 now m)
      \<longrightarrow> canMakeAPICall now m = (False, m))
   \<and> (fst (canMakeAPICall now m)
      \<longrightarrow> snd (canMakeAPICall now m) = m\<lparr>currentBurst := currentBurst m + 1\<rparr>
          \<and> apiCalls (snd (canMakeAPICall now m)) = apiCalls m
          \<and> apiCalls (logAPICall now operation (snd (canMakeAPICall now m))) =
              filter (\<lambda>call. now - fst call < 3600000) (apiCalls m) @ [(now, operation)])
   \<and> (callsWithin 60000 now m = 0 \<and> currentBurst m < burstLimit m
        \<and> 0 < maxCallsPerMinute m \<and> length (apiCalls m) < maxCallsPerHour m
      \<longrightarrow> fst (canMakeAPICall now m))"
proof (intro conjI impI)
  assume "burstLimit m \<le> currentBurst m \<or> maxCallsPerMinute m \<le> callsWithin 60000 now m
       \<or> maxCallsPerHour m \<le> callsWithin 3600000 now m"
  then show "canMakeAPICall now m = (False, m)" by (rule canMakeAPICall_denied)
next
  assume g: "fst (canMakeAPICall now m)"
  show "snd (canMakeAPICall now m) = m\<lparr>currentBurst := currentBurst m + 1\<rparr>"
    by (simp add: canMakeAPICall_granted [OF g])
  show "apiCalls (snd (canMakeAPICall now m)) = apiCalls m"
    by (simp add: canMakeAPICall_granted [OF g])
  show "apiCalls (logAPICall now operation (snd (canMakeAPICall now m))) =
          filter (\<lambda>call. now - fst call < 3600000) (apiCalls m) @ [(now, operation)]"
    by (simp add: canMakeAPICall_granted [OF g] logAPICall_records)
next
  assume "callsWithin 60000 now m = 0 \<and> currentBurst m < burstLimit m
        \<and> 0 < maxCallsPerMinute m \<and> length (apiCalls m) < maxCallsPerHour m"
  then show "fst (canMakeAPICall now m)" by (simp add: canMakeAPICall_after_window)
qed

text \<open>
  Witness: a monitor with the constructor's ceilings whose log holds 100 calls made at
  time 0. At 59999 ms the next acquisition is denied; at 60000 ms it is granted, the burst
  count becomes 1 and \<open>logAPICall\<close> appends the new entry.
\<close>

theorem canMakeAPICall_limits_witness:
  "canMakeAPICall 59999 ((APIMonitor_new 0)\<lparr>apiCalls := replicate 100 (0, ''clockIn'')\<rparr>)
     = (False, (APIMonitor_new 0)\<lparr>apiCalls := replicate 100 (0, ''clockIn'')\<rparr>)
   \<and> fst (canMakeAPICall 60000 ((APIMonitor_new 0)\<lparr>apiCalls := replicate 100 (0, ''clockIn'')\<rparr>))
   \<and> currentBurst (snd (canMakeAPICall 60000
        ((APIMonitor_new 0)\<lparr>apiCalls := replicate 100 (0, ''clockIn'')\<rparr>))) = 1
   \<and> apiCalls (logAPICall 60000 ''clockOut'' (snd (canMakeAPICall 60000
        ((APIMonitor_new 0)\<lparr>apiCalls := replicate 100 (0, ''clockIn'')\<rparr>))))
       = replicate 100 (0, ''clockIn'') @ [(60000, ''clockOut'')]"
proof -
  let ?M = "(APIMonitor_new 0)\<lparr>apiCalls := replicate 100 (0, ''clockIn'')\<rparr>"
  have full: "maxCallsPerMinute ?M \<le> callsWithin 60000 59999 ?M"
    by (simp add: callsWithin_def APIMonitor_new_def)
  have rolled: "callsWithin 60000 60000 ?M = 0 \<and> currentBurst ?M < burstLimit ?M
        \<and> 0 < maxCallsPerMinute ?M \<and> length (apiCalls ?M) < maxCallsPerHour ?M"
    by (simp add: callsWithin_def APIMonitor_new_def)
  have denied: "canMakeAPICall 59999 ?M = (False, ?M)"
    using canMakeAPICall_limits [of ?M 59999 "''clockOut''"] full by blast
  have granted: "fst (canMakeAPICall 60000 ?M)"
    using canMakeAPICall_limits [of ?M 60000 "''clockOut''"] rolled by blast
  have after: "snd (canMakeAPICall 60000 ?M) = ?M\<lparr>currentBurst := currentBurst ?M + 1\<rparr>"
    using canMakeAPICall_limits [of ?M 60000 "''clockOut''"] granted by blast
  have burst: "currentBurst (snd (canMakeAPICall 60000 ?M)) = 1"
    by (simp only: after) (simp add: APIMonitor_new_def)
  have "apiCalls (logAPICall 60000 ''clockOut'' (snd (canMakeAPICall 60000 ?M))) =
          filter (\<lambda>call. 60000 - fst call < 3600000) (apiCalls ?M) @ [(60000, ''clockOut'')]"
    using canMakeAPICall_limits [of ?M 60000 "''clockOut''"] granted by blast
  also have "filter (\<lambda>call. 60000 - fst call < 3600000) (apiCalls ?M)
      = replicate 100 (0, ''clockIn'')"
    by simp
  finally have logged: "apiCalls (logAPICall 60000 ''clockOut'' (snd (canMakeAPICall 60000 ?M)))
      = replicate 100 (0, ''clockIn'') @ [(60000, ''clockOut'')]" .
  show ?thesis using denied granted burst logged by blast
qed

text \<open>
  The claim as worded fails: a granted \<open>canMakeAPICall\<close> records no call-log entry. On a
  new monitor the call is granted and the log is still empty.
\<close>

theorem canMakeAPICall_records_nothing:
  "fst (canMakeAPICall 0 (APIMonitor_new 0))
   \<and> apiCalls (snd (canMakeAPICall 0 (APIMonitor_new 0))) = []"
  by (simp add: canMakeAPICall_def APIMonitor_new_def)


section \<open>Properties of the cache time-to-live\<close>

lemma setCache_keeps_ttl:
  "cache s k = Some c \<Longrightarrow>
   cache (setCache now k d s) k = Some \<lparr>data = Some d, timestamp = Some now, ttl = ttl c\<rparr>"
  by (simp add: setCache_def)

lemma setEmergencyMode_on:
  "setEmergencyMode True s =
     (None, s\<lparr>emergencyMode := True,
              cache := (\<lambda>k. map_option (\<lambda>c. c\<lparr>ttl := 3600000\<rparr>) (cache s k))\<rparr>)"
  by (simp add: setEmergencyMode_def)

text \<open>
  C5 at the failing input. On a newly constructed service, emergency mode is enabled and
  then disabled. Enabling sets the four entries to one hour. Disabling restores
  \<open>employees\<close> and then assigns to \<open>this.cache.onwork\<close>, a key the constructor never
  created (it created \<open>onWork\<close>): a TypeError is thrown, and \<open>onWork\<close>, \<open>main\<close> and
  \<open>stats\<close> keep the emergency value of one hour.
\<close>

theorem setEmergencyMode_off_new_service:
  "fst (setEmergencyMode False (snd (setEmergencyMode True (GoogleSheetsService_new mon))))
     = Some (TypeError ''Cannot set properties of undefined'')
   \<and> map_option ttl (cache (snd (setEmergencyMode False
        (snd (setEmergencyMode True (GoogleSheetsService_new mon))))) ''employees'') = Some 300000
   \<and> map_option ttl (cache (snd (setEmergencyMode False
        (snd (setEmergencyMode True (GoogleSheetsService_new mon))))) ''onWork'') = Some 3600000
   \<and> map_option ttl (cache (snd (setEmergencyMode False
        (snd (setEmergencyMode True (GoogleSheetsService_new mon))))) ''main'') = Some 3600000
   \<and> map_option ttl (cache (snd (setEmergencyMode False
        (snd (setEmergencyMode True (GoogleSheetsService_new mon))))) ''stats'') = Some 3600000"
  by (simp add: setEmergencyMode_def GoogleSheetsService_new_def setTtl_def emptyEntry_def)


section \<open>Properties of the resilient fetch\<close>

lemma isCacheValid_getCache:
  "isCacheValid now s k \<Longrightarrow> \<exists>d. getCache s k = Some d"
  by (auto simp: isCacheValid_def getCache_def split: option.splits)

lemma fetch_fresh:
  assumes "isCacheValid now s (cacheKeyOf sheetName)" "getCache s (cacheKeyOf sheetName) = Some d"
  shows "getCachedSheetData now remote sheetName s = (Inr d, s)"
  using assms by (simp add: getCachedSheetData_def)

lemma canMakeAPICall_denied_state:
  "\<not> fst (canMakeAPICall now m) \<Longrightarrow> canMakeAPICall now m = (False, m)"
  by (auto simp: canMakeAPICall_def Let_def split: if_splits)

lemma fetch_denied:
  assumes "\<not> isCacheValid now s (cacheKeyOf sheetName)"
    "\<not> fst (canMakeAPICall now (apiMonitor s))"
  shows "getCachedSheetData now remote sheetName s =
           (case getCache s (cacheKeyOf sheetName) of
              Some d \<Rightarrow> (Inr d, s) | None \<Rightarrow> (Inl rateLimitError, s))"
  using assms canMakeAPICall_denied_state [OF assms(2)]
  by (simp add: getCachedSheetData_def split: option.splits)

lemma fetch_remote_error:
  assumes "\<not> isCacheValid now s (cacheKeyOf sheetName)"
    "fst (canMakeAPICall now (apiMonitor s))" "remote sheetName = Inl e"
  shows "getCachedSheetData now remote sheetName s =
           (if isQuotaError e
            then (case getCache s (cacheKeyOf sheetName) of
                    Some d \<Rightarrow> (Inr d, afterCall now sheetName s)
                  | None \<Rightarrow> (Inl e, afterCall now sheetName s))
            else (Inl e, afterCall now sheetName s))"
  using assms canMakeAPICall_granted [OF assms(2)]
  by (simp add: getCachedSheetData_def afterCall_def getCache_def Let_def split: option.splits)

lemma fetch_remote_ok:
  assumes "\<not> isCacheValid now s (cacheKeyOf sheetName)"
    "fst (canMakeAPICall now (apiMonitor s))" "remote sheetName = Inr rows"
  shows "getCachedSheetData now remote sheetName s =
           (Inr rows, setCache now (cacheKeyOf sheetName) rows (afterCall now sheetName s))"
  using assms canMakeAPICall_granted [OF assms(2)]
  by (simp add: getCachedSheetData_def afterCall_def setCache_def Let_def)

lemma getCache_setCache: "getCache (setCache now k d s) k = Some d"
  by (simp add: getCache_def setCache_def Let_def)

lemma isCacheValid_setCache:
  "isCacheValid now' (setCache now k d s) k =
     (now \<noteq> 0 \<and> now' - now < (case cache s k of None \<Rightarrow> 300000 | Some c \<Rightarrow> ttl c))"
  by (auto simp: isCacheValid_def setCache_def Let_def emptyEntry_def split: option.splits)

text \<open>
  C2. For every sheet name, time, state and remote outcome, \<open>getCachedSheetData\<close>:
  \<^item> with a cache entry within its TTL, returns the cached payload whatever the remote
    would answer, and leaves the state, the limiter included, as it was;
  \<^item> with no fresh entry and the limiter denying, returns the stale payload when there
    is one and otherwise fails with the rate-limit error;
  \<^item> when the remote read fails with a message containing \<open>quota\<close>, \<open>limit\<close>,
    \<open>429\<close> or \<open>RATE_LIMIT\<close>, returns the stale payload when there is one and otherwise
    throws that error;
  \<^item> throws every other remote error;
  \<^item> on a successful remote read stores the rows in the cache and returns them.
\<close>

theorem getCachedSheetData_cases:
  "(isCacheValid now s (cacheKeyOf sheetName)
      \<longrightarrow> (\<exists>d. getCache s (cacheKeyOf sheetName) = Some d
               \<and> (\<forall>r. getCachedSheetData now r sheetName s = (Inr d, s))))
   \<and> (\<not> isCacheValid now s (cacheKeyOf sheetName) \<and> \<not> fst (canMakeAPICall now (apiMonitor s))
      \<longrightarrow> getCachedSheetData now remote sheetName s =
            (case getCache s (cacheKeyOf sheetName) of
               Some d \<Rightarrow> (Inr d, s) | None \<Rightarrow> (Inl rateLimitError, s)))
   \<and> (\<not> isCacheValid now s (cacheKeyOf sheetName) \<and> fst (canMakeAPICall now (apiMonitor s))
        \<and> remote sheetName = Inl e \<and> isQuotaError e
      \<longrightarrow> getCachedSheetData now remote sheetName s =
            (case getCache s (cacheKeyOf sheetName) of
               Some d \<Rightarrow> (Inr d, afterCall now sheetName s)
             | None \<Rightarrow> (Inl e, afterCall now sheetName s)))
   \<and> (\<not> isCacheValid now s (cacheKeyOf sheetName) \<and> fst (canMakeAPICall now (apiMonitor s))
        \<and> remote sheetName = Inl e \<and> \<not> isQuotaError e
      \<longrightarrow> getCachedSheetData now remote sheetName s = (Inl e, afterCall now sheetName s))
   \<and> (\<not> isCacheValid now s (cacheKeyOf sheetName) \<and> fst (canMakeAPICall now (apiMonitor s))
        \<and> remote sheetName = Inr rows
      \<longrightarrow> getCachedSheetData now remote sheetName s =
            (Inr rows, setCache now (cacheKeyOf sheetName) rows (afterCall now sheetName s))
          \<and> getCache (snd (getCachedSheetData now remote sheetName s)) (cacheKeyOf sheetName)
              = Some rows)"
proof (intro conjI impI)
  assume v: "isCacheValid now s (cacheKeyOf sheetName)"
  then obtain d where d: "getCache s (cacheKeyOf sheetName) = Some d"
    using isCacheValid_getCache by blast
  with v have "\<forall>r. getCachedSheetData now r sheetName s = (Inr d, s)"
    by (simp add: fetch_fresh)
  with d show "\<exists>d. getCache s (cacheKeyOf sheetName) = Some d
               \<and> (\<forall>r. getCachedSheetData now r sheetName s = (Inr d, s))" by blast
next
  assume "\<not> isCacheValid now s (cacheKeyOf sheetName) \<and> \<not> fst (canMakeAPICall now (apiMonitor s))"
  then show "getCachedSheetData now remote sheetName s =
            (case getCache s (cacheKeyOf sheetName) of
               Some d \<Rightarrow> (Inr d, s) | None \<Rightarrow> (Inl rateLimitError, s))"
    by (simp add: fetch_denied)
next
  assume "\<not> isCacheValid now s (cacheKeyOf sheetName) \<and> fst (canMakeAPICall now (apiMonitor s))
        \<and> remote sheetName = Inl e \<and> isQuotaError e"
  then show "getCachedSheetData now remote sheetName s =
            (case getCache s (cacheKeyOf sheetName) of
               Some d \<Rightarrow> (Inr d, afterCall now sheetName s)
             | None \<Rightarrow> (Inl e, afterCall now sheetName s))"
    by (simp add: fetch_remote_error)
next
  assume "\<not> isCacheValid now s (cacheKeyOf sheetName) \<and> fst (canMakeAPICall now (apiMonitor s))
        \<and> remote sheetName = Inl e \<and> \<not> isQuotaError e"
  then show "getCachedSheetData now remote sheetName s = (Inl e, afterCall now sheetName s)"
    by (simp add: fetch_remote_error)
next
  assume h: "\<not> isCacheValid now s (cacheKeyOf sheetName) \<and> fst (canMakeAPICall now (apiMonitor s))
        \<and> remote sheetName = Inr rows"
  then show eq: "getCachedSheetData now remote sheetName s =
            (Inr rows, setCache now (cacheKeyOf sheetName) rows (afterCall now sheetName s))"
    by (simp add: fetch_remote_ok)
  show "getCache (snd (getCachedSheetData now remote sheetName s)) (cacheKeyOf sheetName)
              = Some rows"
    by (simp add: eq getCache_setCache)
qed


lemma key_main: "cacheKeyOf ''MAIN'' = ''main''" by code_simp
lemma key_onwork: "cacheKeyOf ''ON WORK'' = ''onwork''" by code_simp

lemma quota_msg: "isQuotaError (Error ''quota exceeded'')" by code_simp
lemma other_msg: "\<not> isQuotaError (Error ''Sheet MAIN not found'')" by code_simp

text \<open>
  Witness on the MAIN sheet (TTL 30 seconds): a payload stored at 1000 ms is served at
  2000 ms without the remote; at 40000 ms it is stale and is served when the burst count
  is at its ceiling or when the remote fails with a quota error; with no payload those
  two cases fail; an error of another kind is thrown even with a stale payload; a
  successful read is returned and stored.
\<close>

theorem getCachedSheetData_cases_witness:
  "getCachedSheetData 2000 (\<lambda>n. Inl (Error ''Sheet MAIN not found'')) ''MAIN''
       (setCache 1000 ''main'' [mkRow 2 [(EmployeeName, ''Somchai'')]] newService)
     = (Inr [mkRow 2 [(EmployeeName, ''Somchai'')]],
        setCache 1000 ''main'' [mkRow 2 [(EmployeeName, ''Somchai'')]] newService)
   \<and> fst (getCachedSheetData 40000 (\<lambda>n. Inr []) ''MAIN''
       (setCache 1000 ''main'' [mkRow 2 [(EmployeeName, ''Somchai'')]]
          (newService\<lparr>apiMonitor := (APIMonitor_new 0)\<lparr>currentBurst := 75\<rparr>\<rparr>)))
     = Inr [mkRow 2 [(EmployeeName, ''Somchai'')]]
   \<and> fst (getCachedSheetData 40000 (\<lambda>n. Inr []) ''MAIN''
          (newService\<lparr>apiMonitor := (APIMonitor_new 0)\<lparr>currentBurst := 75\<rparr>\<rparr>))
     = Inl rateLimitError
   \<and> fst (getCachedSheetData 40000 (\<lambda>n. Inl (Error ''quota exceeded'')) ''MAIN''
       (setCache 1000 ''main'' [mkRow 2 [(EmployeeName, ''Somchai'')]] newService))
     = Inr [mkRow 2 [(EmployeeName, ''Somchai'')]]
   \<and> fst (getCachedSheetData 40000 (\<lambda>n. Inl (Error ''quota exceeded'')) ''MAIN'' newService)
     = Inl (Error ''quota exceeded'')
   \<and> fst (getCachedSheetData 40000 (\<lambda>n. Inl (Error ''Sheet MAIN not found'')) ''MAIN''
       (setCache 1000 ''main'' [mkRow 2 [(EmployeeName, ''Somchai'')]] newService))
     = Inl (Error ''Sheet MAIN not found'')
   \<and> fst (getCachedSheetData 40000 (\<lambda>n. Inr [mkRow 2 [(EmployeeName, ''Somchai'')]]) ''MAIN''
          newService)
     = Inr [mkRow 2 [(EmployeeName, ''Somchai'')]]
   \<and> getCache (snd (getCachedSheetData 40000
          (\<lambda>n. Inr [mkRow 2 [(EmployeeName, ''Somchai'')]]) ''MAIN'' newService)) ''main''
     = Some [mkRow 2 [(EmployeeName, ''Somchai'')]]"
proof -
  let ?R = "[mkRow 2 [(EmployeeName, ''Somchai'')]]"
  let ?S1 = "setCache 1000 ''main'' ?R newService"
  let ?B = "newService\<lparr>apiMonitor := (APIMonitor_new 0)\<lparr>currentBurst := 75\<rparr>\<rparr>"
  let ?S1B = "setCache 1000 ''main'' ?R ?B"
  let ?down = "\<lambda>n::string. Inl (Error ''Sheet MAIN not found'') :: error + sheet_row list"
  let ?quota = "\<lambda>n::string. Inl (Error ''quota exceeded'') :: error + sheet_row list"
  let ?none = "\<lambda>n::string. Inr [] :: error + sheet_row list"
  let ?ok = "\<lambda>n::string. Inr ?R :: error + sheet_row list"
  have ttl_main: "cache newService ''main'' = Some (emptyEntry 30000)"
    by (simp add: newService_def GoogleSheetsService_new_def)
  have ttl_mainB: "cache ?B ''main'' = Some (emptyEntry 30000)"
    by (simp add: newService_def GoogleSheetsService_new_def)
  have fresh: "isCacheValid 2000 ?S1 (cacheKeyOf ''MAIN'')"
    by (simp add: key_main isCacheValid_setCache ttl_main emptyEntry_def)
  have stale1: "\<not> isCacheValid 40000 ?S1 (cacheKeyOf ''MAIN'')"
    by (simp add: key_main isCacheValid_setCache ttl_main emptyEntry_def)
  have stale1B: "\<not> isCacheValid 40000 ?S1B (cacheKeyOf ''MAIN'')"
    by (simp add: key_main isCacheValid_setCache ttl_main emptyEntry_def)
  have empty0: "\<not> isCacheValid 40000 newService (cacheKeyOf ''MAIN'')"
    by (simp add: key_main isCacheValid_def ttl_main emptyEntry_def)
  have emptyB: "\<not> isCacheValid 40000 ?B (cacheKeyOf ''MAIN'')"
    by (simp add: key_main isCacheValid_def ttl_main emptyEntry_def)
  have none0: "getCache newService (cacheKeyOf ''MAIN'') = None"
    by (simp add: key_main getCache_def ttl_main emptyEntry_def)
  have noneB: "getCache ?B (cacheKeyOf ''MAIN'') = None"
    by (simp add: key_main getCache_def ttl_main emptyEntry_def)
  have some1: "getCache ?S1 (cacheKeyOf ''MAIN'') = Some ?R"
    by (simp add: key_main getCache_setCache)
  have some1B: "getCache ?S1B (cacheKeyOf ''MAIN'') = Some ?R"
    by (simp add: key_main getCache_setCache)
  have grant0: "fst (canMakeAPICall 40000 (apiMonitor newService))"
    by (simp add: newService_def GoogleSheetsService_new_def APIMonitor_new_def canMakeAPICall_def)
  have grant1: "fst (canMakeAPICall 40000 (apiMonitor ?S1))"
    by (simp add: setCache_def Let_def newService_def GoogleSheetsService_new_def
        APIMonitor_new_def canMakeAPICall_def)
  have denyB: "\<not> fst (canMakeAPICall 40000 (apiMonitor ?B))"
    by (simp add: APIMonitor_new_def canMakeAPICall_def)
  have deny1B: "\<not> fst (canMakeAPICall 40000 (apiMonitor ?S1B))"
    by (simp add: setCache_def Let_def APIMonitor_new_def canMakeAPICall_def)
  have c1: "getCachedSheetData 2000 ?down ''MAIN'' ?S1 = (Inr ?R, ?S1)"
    using getCachedSheetData_cases [of 2000 ?S1 "''MAIN''"] fresh some1 by auto
  have c2: "fst (getCachedSheetData 40000 ?none ''MAIN'' ?S1B) = Inr ?R"
    using getCachedSheetData_cases [of 40000 ?S1B "''MAIN''" ?none] stale1B deny1B some1B
    by simp
  have c3: "fst (getCachedSheetData 40000 ?none ''MAIN'' ?B) = Inl rateLimitError"
    using getCachedSheetData_cases [of 40000 ?B "''MAIN''" ?none] emptyB denyB noneB
    by simp
  have c4: "fst (getCachedSheetData 40000 ?quota ''MAIN'' ?S1) = Inr ?R"
    using getCachedSheetData_cases [of 40000 ?S1 "''MAIN''" ?quota "Error ''quota exceeded''"]
      stale1 grant1 some1 quota_msg by simp
  have c5: "fst (getCachedSheetData 40000 ?quota ''MAIN'' newService)
      = Inl (Error ''quota exceeded'')"
    using getCachedSheetData_cases [of 40000 newService "''MAIN''" ?quota "Error ''quota exceeded''"]
      empty0 grant0 none0 quota_msg by simp
  have c6: "fst (getCachedSheetData 40000 ?down ''MAIN'' ?S1)
      = Inl (Error ''Sheet MAIN not found'')"
    using getCachedSheetData_cases
      [of 40000 ?S1 "''MAIN''" ?down "Error ''Sheet MAIN not found''"]
      stale1 grant1 other_msg by simp
  have c7: "fst (getCachedSheetData 40000 ?ok ''MAIN'' newService) = Inr ?R
      \<and> getCache (snd (getCachedSheetData 40000 ?ok ''MAIN'' newService)) ''main'' = Some ?R"
    using getCachedSheetData_cases [of 40000 newService "''MAIN''" ?ok _ ?R]
      empty0 grant0 by (simp add: key_main getCache_setCache)
  show ?thesis using c1 c2 c3 c4 c5 c6 c7 by blast
qed


section \<open>Properties of the safe fetch\<close>

lemma getCache_setEmergencyMode_on:
  "getCache (snd (setEmergencyMode True s)) k = getCache s k"
  by (simp add: setEmergencyMode_on getCache_def split: option.splits)

lemma safeGet_ok:
  "getCachedSheetData now remote sheetName s = (Inr rows, s1) \<Longrightarrow>
   safeGetCachedSheetData now remote sheetName s = (Inr rows, s1)"
  by (simp add: safeGetCachedSheetData_def)

lemma safeGet_failed:
  assumes "getCachedSheetData now remote sheetName s = (Inl e, s1)"
  shows "safeGetCachedSheetData now remote sheetName s =
           (Inr (case getCache s1 (cacheKeyOf sheetName) of Some d \<Rightarrow> d | None \<Rightarrow> []),
            if emergencyMode s1 then s1 else snd (setEmergencyMode True s1))"
proof (cases "emergencyMode s1")
  case True
  with assms show ?thesis
    by (simp add: safeGetCachedSheetData_def split: option.splits)
next
  case False
  have "getCache (s1\<lparr>emergencyMode := True,
            cache := (\<lambda>k. map_option (\<lambda>c. c\<lparr>ttl := 3600000\<rparr>) (cache s1 k))\<rparr>)
          (cacheKeyOf sheetName) = getCache s1 (cacheKeyOf sheetName)"
    by (simp add: getCache_def split: option.splits)
  with assms False show ?thesis
    by (simp add: safeGetCachedSheetData_def setEmergencyMode_on split: option.splits)
qed

lemma emergencyMode_after_on: "emergencyMode (snd (setEmergencyMode True s))"
  by (simp add: setEmergencyMode_on)

text \<open>
  C6. \<open>safeGetCachedSheetData\<close> never throws: its result is always a row list. When
  \<open>getCachedSheetData\<close> returns rows they are passed on with the state. When it throws,
  emergency mode is on afterwards (\<open>setEmergencyMode(true)\<close> is run when it was off and
  the state is untouched when it was on), and the rows returned are the cached payload
  of the key when one exists and the empty array otherwise.
\<close>

theorem safeGetCachedSheetData_never_throws:
  "(\<exists>rows. fst (safeGetCachedSheetData now remote sheetName s) = Inr rows)
   \<and> (\<forall>rows s1. getCachedSheetData now remote sheetName s = (Inr rows, s1)
        \<longrightarrow> safeGetCachedSheetData now remote sheetName s = (Inr rows, s1))
   \<and> (\<forall>e s1. getCachedSheetData now remote sheetName s = (Inl e, s1)
        \<longrightarrow> safeGetCachedSheetData now remote sheetName s =
              (Inr (case getCache s1 (cacheKeyOf sheetName) of Some d \<Rightarrow> d | None \<Rightarrow> []),
               if emergencyMode s1 then s1 else snd (setEmergencyMode True s1))
            \<and> emergencyMode (snd (safeGetCachedSheetData now remote sheetName s)))"
proof (intro conjI allI impI)
  obtain r s1 where g: "getCachedSheetData now remote sheetName s = (r, s1)"
    by (cases "getCachedSheetData now remote sheetName s")
  show "\<exists>rows. fst (safeGetCachedSheetData now remote sheetName s) = Inr rows"
  proof (cases r)
    case (Inl e)
    with g show ?thesis by (simp add: safeGet_failed)
  next
    case (Inr rows)
    with g show ?thesis by (simp add: safeGet_ok)
  qed
next
  fix rows s1
  assume "getCachedSheetData now remote sheetName s = (Inr rows, s1)"
  then show "safeGetCachedSheetData now remote sheetName s = (Inr rows, s1)"
    by (rule safeGet_ok)
next
  fix e s1
  assume g: "getCachedSheetData now remote sheetName s = (Inl e, s1)"
  show "safeGetCachedSheetData now remote sheetName s =
              (Inr (case getCache s1 (cacheKeyOf sheetName) of Some d \<Rightarrow> d | None \<Rightarrow> []),
               if emergencyMode s1 then s1 else snd (setEmergencyMode True s1))"
    by (rule safeGet_failed [OF g])
  show "emergencyMode (snd (safeGetCachedSheetData now remote sheetName s))"
    by (simp add: safeGet_failed [OF g] emergencyMode_after_on)
qed

lemma fetch_down_new:
  "getCachedSheetData 40000 (\<lambda>n. Inl (Error ''Sheet MAIN not found'')) ''MAIN'' newService
     = (Inl (Error ''Sheet MAIN not found''), afterCall 40000 ''MAIN'' newService)"
proof -
  have "\<not> isCacheValid 40000 newService (cacheKeyOf ''MAIN'')"
    by (simp add: key_main isCacheValid_def newService_def GoogleSheetsService_new_def
        emptyEntry_def)
  moreover have "fst (canMakeAPICall 40000 (apiMonitor newService))"
    by (simp add: newService_def GoogleSheetsService_new_def APIMonitor_new_def
        canMakeAPICall_def)
  ultimately show ?thesis
    by (simp add: fetch_remote_error other_msg)
qed

lemma fetch_down_stale:
  "getCachedSheetData 40000 (\<lambda>n. Inl (Error ''Sheet MAIN not found'')) ''MAIN''
       (setCache 1000 ''main'' [mkRow 2 [(EmployeeName, ''Somchai'')]] newService)
     = (Inl (Error ''Sheet MAIN not found''),
        afterCall 40000 ''MAIN''
          (setCache 1000 ''main'' [mkRow 2 [(EmployeeName, ''Somchai'')]] newService))"
proof -
  let ?S1 = "setCache 1000 ''main'' [mkRow 2 [(EmployeeName, ''Somchai'')]] newService"
  have "cache newService ''main'' = Some (emptyEntry 30000)"
    by (simp add: newService_def GoogleSheetsService_new_def)
  then have "\<not> isCacheValid 40000 ?S1 (cacheKeyOf ''MAIN'')"
    by (simp add: key_main isCacheValid_setCache emptyEntry_def)
  moreover have "fst (canMakeAPICall 40000 (apiMonitor ?S1))"
    by (simp add: setCache_def Let_def newService_def GoogleSheetsService_new_def
        APIMonitor_new_def canMakeAPICall_def)
  ultimately show ?thesis
    by (simp add: fetch_remote_error other_msg)
qed

text \<open>
  Witness: the remote read of MAIN fails with an error that is not of the quota class.
  On a new service the safe fetch returns the empty array and turns emergency mode on;
  with a stale payload in the cache it returns that payload.
\<close>

theorem safeGetCachedSheetData_never_throws_witness:
  "fst (safeGetCachedSheetData 40000 (\<lambda>n. Inl (Error ''Sheet MAIN not found'')) ''MAIN''
          newService) = Inr []
   \<and> emergencyMode (snd (safeGetCachedSheetData 40000
          (\<lambda>n. Inl (Error ''Sheet MAIN not found'')) ''MAIN'' newService))
   \<and> fst (safeGetCachedSheetData 40000 (\<lambda>n. Inl (Error ''Sheet MAIN not found'')) ''MAIN''
          (setCache 1000 ''main'' [mkRow 2 [(EmployeeName, ''Somchai'')]] newService))
       = Inr [mkRow 2 [(EmployeeName, ''Somchai'')]]"
proof -
  let ?down = "\<lambda>n::string. Inl (Error ''Sheet MAIN not found'') :: error + sheet_row list"
  let ?S1 = "setCache 1000 ''main'' [mkRow 2 [(EmployeeName, ''Somchai'')]] newService"
  have none0: "getCache (afterCall 40000 ''MAIN'' newService) (cacheKeyOf ''MAIN'') = None"
    by (simp add: key_main getCache_def afterCall_def newService_def
        GoogleSheetsService_new_def emptyEntry_def)
  have some1: "getCache (afterCall 40000 ''MAIN'' ?S1) (cacheKeyOf ''MAIN'')
      = Some [mkRow 2 [(EmployeeName, ''Somchai'')]]"
    by (simp add: key_main getCache_def afterCall_def setCache_def Let_def)
  have a: "fst (safeGetCachedSheetData 40000 ?down ''MAIN'' newService) = Inr []
      \<and> emergencyMode (snd (safeGetCachedSheetData 40000 ?down ''MAIN'' newService))"
    using safeGetCachedSheetData_never_throws [of 40000 ?down "''MAIN''" newService]
      fetch_down_new none0 by (simp add: emergencyMode_after_on)
  have b: "fst (safeGetCachedSheetData 40000 ?down ''MAIN'' ?S1)
      = Inr [mkRow 2 [(EmployeeName, ''Somchai'')]]"
    using safeGetCachedSheetData_never_throws [of 40000 ?down "''MAIN''" ?S1]
      fetch_down_stale some1 by simp
  show ?thesis using a b by blast
qed


section \<open>Properties of the working hours\<close>

lemma calculateWorkingHours_nonneg: "0 \<le> calculateWorkingHours p now ci co"
  by (simp add: calculateWorkingHours_def Let_def split: option.splits)

lemma calculateWorkingHours_missing:
  "\<not> truthy ci \<Longrightarrow> calculateWorkingHours p now ci co = 0"
  by (simp add: calculateWorkingHours_def truthy_def split: option.splits)

lemma calculateWorkingHours_bad_in:
  "ci = Some a \<Longrightarrow> p a = None \<Longrightarrow> calculateWorkingHours p now ci co = 0"
  by (simp add: calculateWorkingHours_def Let_def split: option.splits)

lemma calculateWorkingHours_bad_out:
  "co = Some b \<Longrightarrow> b \<noteq> [] \<Longrightarrow> p b = None \<Longrightarrow> calculateWorkingHours p now ci co = 0"
  by (simp add: calculateWorkingHours_def Let_def split: option.splits)

lemma calculateWorkingHours_diff:
  assumes "a \<noteq> []" "b \<noteq> []" "p a = Some tin" "p b = Some tend"
  shows "calculateWorkingHours p now (Some a) (Some b) =
           (if tin \<le> tend then rat_of_int (tend - tin) / 3600000 else 0)"
proof -
  have "(0 \<le> rat_of_int (tend - tin) / 3600000) = (tin \<le> tend)"
    by (simp add: zero_le_divide_iff)
  with assms show ?thesis
    by (simp add: calculateWorkingHours_def Let_def)
qed

lemma calculateWorkingHours_live:
  assumes "a \<noteq> []" "\<not> truthy co" "p a = Some tin"
  shows "calculateWorkingHours p now (Some a) co =
           (if tin \<le> now then rat_of_int (now - tin) / 3600000 else 0)"
proof -
  have "(0 \<le> rat_of_int (now - tin) / 3600000) = (tin \<le> now)"
    by (simp add: zero_le_divide_iff)
  with assms show ?thesis
    by (auto simp: calculateWorkingHours_def Let_def truthy_def split: option.splits)
qed

lemma momentTzParse_examples:
  "momentTzParse ''2024-12-31 08:00:00'' = Some 1735606800000"
  "momentTzParse ''2025-01-01 08:00:00'' = Some 1735693200000"
  "momentTzParse ''2025-01-01 17:30:00'' = Some 1735727400000"
  "momentTzParse ''01/01/2025 17:30:00'' = Some 979986600000"
  "momentTzParse ''01/01/2025 23:59:59'' = Some 980009999000"
  by code_simp+


section \<open>Properties of the employee status\<close>

lemma getEmployeeStatus_ok:
  "getCachedSheetData now remote ''ON WORK'' s = (Inr rows, s1) \<Longrightarrow>
   getEmployeeStatus now remote emp s = (statusOfRows emp rows, s1)"
  by (simp add: getEmployeeStatus_def safeGet_ok)

lemma getEmployeeStatus_failed:
  assumes "getCachedSheetData now remote ''ON WORK'' s = (Inl e, s1)"
  shows "fst (getEmployeeStatus now remote emp s) =
           statusOfRows emp (case getCache s1 ''onwork'' of Some d \<Rightarrow> d | None \<Rightarrow> [])"
  by (simp add: getEmployeeStatus_def safeGet_failed [OF assms] key_onwork)

lemma statusOfRows_empty: "statusOfRows emp [] = notOnWork"
  by (simp add: statusOfRows_def)

lemma clockIn_proceeds:
  assumes "fst (getEmployeeStatus (clock e) (getRows e) (employee d) s) = notOnWork"
    "addRows d (resolveTimestamp e (mock_time d)) (getLocationName e (lat d) (lon d)) st = Inr st1"
  shows "snd (snd (clockIn e addRows d (s, st))) = st1"
  using assms
  by (simp add: clockIn_def Let_def notOnWork_def split: prod.splits option.splits)

text \<open>
  C9, as the code has it. \<open>getEmployeeStatus\<close> always returns a status (the model has no
  error result: the \<open>catch\<close> covers the whole body). When the fetch of ON WORK throws and
  the cache holds no payload for the key \<open>onwork\<close>, the status is
  \<open>{isOnWork: false, workRecord: null}\<close>, the same value as for an empty ON WORK sheet; a
  \<open>clockIn\<close> that gets this status goes on to append its rows. When the fetch throws and
  a stale payload exists, the status is computed from that payload. When the fetch
  succeeds the status is computed from the rows fetched.
\<close>

theorem getEmployeeStatus_on_failure:
  "(\<forall>err s1. getCachedSheetData now remote ''ON WORK'' s = (Inl err, s1)
        \<and> getCache s1 ''onwork'' = None
      \<longrightarrow> fst (getEmployeeStatus now remote emp s) = notOnWork)
   \<and> (\<forall>err s1 stale. getCachedSheetData now remote ''ON WORK'' s = (Inl err, s1)
        \<and> getCache s1 ''onwork'' = Some stale
      \<longrightarrow> fst (getEmployeeStatus now remote emp s) = statusOfRows emp stale)
   \<and> (\<forall>rows s1. getCachedSheetData now remote ''ON WORK'' s = (Inr rows, s1)
      \<longrightarrow> getEmployeeStatus now remote emp s = (statusOfRows emp rows, s1))
   \<and> statusOfRows emp [] = notOnWork
   \<and> (\<forall>e d addRows st st1.
        fst (getEmployeeStatus (clock e) (getRows e) (employee d) s) = notOnWork
        \<and> addRows d (resolveTimestamp e (mock_time d)) (getLocationName e (lat d) (lon d)) st
            = Inr st1
      \<longrightarrow> snd (snd (clockIn e addRows d (s, st))) = st1)"
proof (intro conjI allI impI)
  fix err s1
  assume "getCachedSheetData now remote ''ON WORK'' s = (Inl err, s1)
        \<and> getCache s1 ''onwork'' = None"
  then show "fst (getEmployeeStatus now remote emp s) = notOnWork"
    using getEmployeeStatus_failed [of now remote s err s1 emp]
    by (simp add: statusOfRows_empty)
next
  fix err s1 stale
  assume "getCachedSheetData now remote ''ON WORK'' s = (Inl err, s1)
        \<and> getCache s1 ''onwork'' = Some stale"
  then show "fst (getEmployeeStatus now remote emp s) = statusOfRows emp stale"
    using getEmployeeStatus_failed [of now remote s err s1 emp] by simp
next
  fix rows s1
  assume "getCachedSheetData now remote ''ON WORK'' s = (Inr rows, s1)"
  then show "getEmployeeStatus now remote emp s = (statusOfRows emp rows, s1)"
    by (rule getEmployeeStatus_ok)
next
  show "statusOfRows emp [] = notOnWork" by (rule statusOfRows_empty)
next
  fix e :: env and d :: clock_data
    and addRows :: "clock_data \<Rightarrow> string \<Rightarrow> string \<Rightarrow> sheets \<Rightarrow> error + sheets"
    and st st1 :: sheets
  assume "fst (getEmployeeStatus (clock e) (getRows e) (employee d) s) = notOnWork
        \<and> addRows d (resolveTimestamp e (mock_time d)) (getLocationName e (lat d) (lon d)) st
            = Inr st1"
  then show "snd (snd (clockIn e addRows d (s, st))) = st1"
    by (simp add: clockIn_proceeds)
qed

lemma fetch_onwork_down_new:
  "getCachedSheetData 5000 remoteDown ''ON WORK'' newService
     = (Inl (Error ''Sheet ON WORK not found''), afterCall 5000 ''ON WORK'' newService)"
proof -
  have "\<not> isCacheValid 5000 newService (cacheKeyOf ''ON WORK'')"
    by (simp add: key_onwork isCacheValid_def newService_def GoogleSheetsService_new_def)
  moreover have "fst (canMakeAPICall 5000 (apiMonitor newService))"
    by (simp add: newService_def GoogleSheetsService_new_def APIMonitor_new_def
        canMakeAPICall_def)
  moreover have "remoteDown ''ON WORK'' = Inl (Error ''Sheet ON WORK not found'')"
    by (simp add: remoteDown_def)
  moreover have "\<not> isQuotaError (Error ''Sheet ON WORK not found'')" by code_simp
  ultimately show ?thesis
    by (simp add: fetch_remote_error)
qed

lemma fetch_onwork_down_stale:
  "getCachedSheetData 400000 remoteDown ''ON WORK''
       (setCache 1000 ''onwork'' exampleOnWork newService)
     = (Inl (Error ''Sheet ON WORK not found''),
        afterCall 400000 ''ON WORK'' (setCache 1000 ''onwork'' exampleOnWork newService))"
proof -
  let ?S1 = "setCache 1000 ''onwork'' exampleOnWork newService"
  have "cache newService ''onwork'' = None"
    by (simp add: newService_def GoogleSheetsService_new_def)
  then have "\<not> isCacheValid 400000 ?S1 (cacheKeyOf ''ON WORK'')"
    by (simp add: key_onwork isCacheValid_setCache)
  moreover have "fst (canMakeAPICall 400000 (apiMonitor ?S1))"
    by (simp add: setCache_def Let_def newService_def GoogleSheetsService_new_def
        APIMonitor_new_def canMakeAPICall_def)
  moreover have "remoteDown ''ON WORK'' = Inl (Error ''Sheet ON WORK not found'')"
    by (simp add: remoteDown_def)
  moreover have "\<not> isQuotaError (Error ''Sheet ON WORK not found'')" by code_simp
  ultimately show ?thesis
    by (simp add: fetch_remote_error)
qed

lemma fetch_onwork_new:
  "getCachedSheetData 5000 exampleRemote ''ON WORK'' newService
     = (Inr exampleOnWork, setCache 5000 ''onwork'' exampleOnWork
          (afterCall 5000 ''ON WORK'' newService))"
proof -
  have "\<not> isCacheValid 5000 newService (cacheKeyOf ''ON WORK'')"
    by (simp add: key_onwork isCacheValid_def newService_def GoogleSheetsService_new_def)
  moreover have "fst (canMakeAPICall 5000 (apiMonitor newService))"
    by (simp add: newService_def GoogleSheetsService_new_def APIMonitor_new_def
        canMakeAPICall_def)
  moreover have "exampleRemote ''ON WORK'' = Inr exampleOnWork"
    by (simp add: exampleRemote_def)
  ultimately show ?thesis
    by (simp add: fetch_remote_ok key_onwork)
qed

lemma example_status_on: "isOnWork (statusOfRows (Some ''somchai  jones'') exampleOnWork)"
  by code_simp

text \<open>
  Witness. With the remote down and nothing cached, the status of Somchai Jones is the
  not-working status and \<open>clockIn\<close> appends the new session to ON WORK. With the
  remote down and a stale payload, and with the remote up, the status is computed from
  the rows, which list the employee as working.
\<close>

theorem getEmployeeStatus_on_failure_witness:
  "fst (getEmployeeStatus 5000 remoteDown (Some ''somchai  jones'') newService) = notOnWork
   \<and> length (onWork (snd (snd (clockIn (exampleEnv remoteDown) exampleAddRows exampleData
         (newService, exampleSheets\<lparr>onWork := []\<rparr>))))) = 1
   \<and> isOnWork (fst (getEmployeeStatus 400000 remoteDown (Some ''somchai  jones'')
         (setCache 1000 ''onwork'' exampleOnWork newService)))
   \<and> isOnWork (fst (getEmployeeStatus 5000 exampleRemote (Some ''somchai  jones'') newService))
   \<and> statusOfRows (Some ''somchai  jones'') [] = notOnWork"
proof -
  let ?emp = "Some ''somchai  jones''"
  let ?S1 = "setCache 1000 ''onwork'' exampleOnWork newService"
  have none0: "getCache (afterCall 5000 ''ON WORK'' newService) ''onwork'' = None"
    by (simp add: getCache_def afterCall_def newService_def GoogleSheetsService_new_def)
  have some1: "getCache (afterCall 400000 ''ON WORK'' ?S1) ''onwork'' = Some exampleOnWork"
    by (simp add: getCache_def afterCall_def setCache_def Let_def)
  have a: "fst (getEmployeeStatus 5000 remoteDown ?emp newService) = notOnWork"
    using getEmployeeStatus_on_failure [of 5000 remoteDown newService ?emp]
      fetch_onwork_down_new none0 by blast
  have e1: "clock (exampleEnv remoteDown) = 5000" "getRows (exampleEnv remoteDown) = remoteDown"
    "employee exampleData = ?emp"
    by (simp_all add: exampleEnv_def exampleData_def)
  have add: "exampleAddRows exampleData
      (resolveTimestamp (exampleEnv remoteDown) (mock_time exampleData))
      (getLocationName (exampleEnv remoteDown) (lat exampleData) (lon exampleData))
      (exampleSheets\<lparr>onWork := []\<rparr>)
     = Inr (exampleSheets\<lparr>onWork :=
         [\<lparr>rowNumber = 4,
           get = (\<lambda>h. if h = EmployeeName \<or> h = SystemName then employee exampleData
                       else if h = ClockInTime
                         then Some (resolveTimestamp (exampleEnv remoteDown) (mock_time exampleData))
                       else if h = RowRef \<or> h = RowInMain then Some ''4''
                       else None)\<rparr>]\<rparr>)"
    by (simp add: exampleAddRows_def)
  have b: "length (onWork (snd (snd (clockIn (exampleEnv remoteDown) exampleAddRows exampleData
         (newService, exampleSheets\<lparr>onWork := []\<rparr>))))) = 1"
    using getEmployeeStatus_on_failure [of 5000 remoteDown newService ?emp] a e1 add
    by simp
  have c: "isOnWork (fst (getEmployeeStatus 400000 remoteDown ?emp ?S1))"
    using getEmployeeStatus_on_failure [of 400000 remoteDown ?S1 ?emp]
      fetch_onwork_down_stale some1 example_status_on by simp
  have d: "isOnWork (fst (getEmployeeStatus 5000 exampleRemote ?emp newService))"
    using getEmployeeStatus_on_failure [of 5000 exampleRemote newService ?emp]
      fetch_onwork_new example_status_on by simp
  have e: "statusOfRows ?emp [] = notOnWork"
    using getEmployeeStatus_on_failure [of 5000 exampleRemote newService ?emp] by blast
  show ?thesis using a b c d e by blast
qed

text \<open>
  The claim as worded fails: the fetch of ON WORK throws (the sheet cannot be read, an
  error that is not of the quota class) while the cache holds a stale payload that lists
  the employee; the status returned is the working status, not
  \<open>{isOnWork: false, workRecord: null}\<close>.
\<close>

theorem getEmployeeStatus_stale_counterexample:
  "fst (getCachedSheetData 400000 remoteDown ''ON WORK''
          (setCache 1000 ''onwork'' exampleOnWork newService))
     = Inl (Error ''Sheet ON WORK not found'')
   \<and> isOnWork (fst (getEmployeeStatus 400000 remoteDown (Some ''somchai  jones'')
         (setCache 1000 ''onwork'' exampleOnWork newService)))
   \<and> fst (getEmployeeStatus 400000 remoteDown (Some ''somchai  jones'')
         (setCache 1000 ''onwork'' exampleOnWork newService)) \<noteq> notOnWork"
proof -
  let ?emp = "Some ''somchai  jones''"
  let ?S1 = "setCache 1000 ''onwork'' exampleOnWork newService"
  have some1: "getCache (afterCall 400000 ''ON WORK'' ?S1) ''onwork'' = Some exampleOnWork"
    by (simp add: getCache_def afterCall_def setCache_def Let_def)
  have st: "fst (getEmployeeStatus 400000 remoteDown ?emp ?S1) = statusOfRows ?emp exampleOnWork"
    using getEmployeeStatus_failed [OF fetch_onwork_down_stale, of ?emp] some1 by simp
  have on: "isOnWork (fst (getEmployeeStatus 400000 remoteDown ?emp ?S1))"
    by (simp only: st example_status_on)
  have "\<not> isOnWork notOnWork" by (simp add: notOnWork_def)
  with on have ne: "fst (getEmployeeStatus 400000 remoteDown ?emp ?S1) \<noteq> notOnWork"
    by auto
  show ?thesis using fetch_onwork_down_stale on ne by simp
qed


section \<open>Properties of clockOut\<close>

lemma findByIndex_iff:
  "findByIndex emp wr rows = Some r \<longleftrightarrow>
     (\<exists>idx. mainRowIndex wr = Some idx \<and> 1 < idx \<and> idx - 2 < int (length rows)
        \<and> r = rows ! nat (idx - 2) \<and> isNameMatch emp (get r EmployeeName))"
  by (auto simp: findByIndex_def Let_def split: option.splits if_splits)

lemma closestStep_skip:
  "timeDiffOf e c r = None \<Longrightarrow> closestStep e c acc r = acc"
  by (auto simp: closestStep_def timeDiffOf_def Let_def split: option.splits prod.splits if_splits)

lemma closestStep_first:
  "timeDiffOf e c r = Some td \<Longrightarrow> closestStep e c None r = Some (r, td)"
  by (auto simp: closestStep_def timeDiffOf_def Let_def split: option.splits prod.splits if_splits)

lemma closestStep_next:
  "timeDiffOf e c r = Some td \<Longrightarrow>
   closestStep e c (Some (r0, m0)) r = (if td < m0 then Some (r, td) else Some (r0, m0))"
  by (auto simp: closestStep_def timeDiffOf_def Let_def split: option.splits prod.splits if_splits)

lemma closest_from_Some:
  assumes "foldl (closestStep e c) (Some (r0, m0)) cs = Some (r, m)"
  shows "((r, m) = (r0, m0) \<or> (r \<in> set cs \<and> timeDiffOf e c r = Some m))
       \<and> m \<le> m0 \<and> (\<forall>x \<in> set cs. \<forall>dx. timeDiffOf e c x = Some dx \<longrightarrow> m \<le> dx)"
  using assms
proof (induction cs arbitrary: r0 m0)
  case Nil
  then show ?case by simp
next
  case (Cons x xs)
  show ?case
  proof (cases "timeDiffOf e c x")
    case None
    with Cons.prems have "foldl (closestStep e c) (Some (r0, m0)) xs = Some (r, m)"
      by (simp add: closestStep_skip)
    from Cons.IH [OF this] None show ?thesis by auto
  next
    case (Some td)
    show ?thesis
    proof (cases "td < m0")
      case True
      with Some Cons.prems have "foldl (closestStep e c) (Some (x, td)) xs = Some (r, m)"
        by (simp add: closestStep_next)
      from Cons.IH [OF this] Some True show ?thesis by auto
    next
      case False
      with Some Cons.prems have "foldl (closestStep e c) (Some (r0, m0)) xs = Some (r, m)"
        by (simp add: closestStep_next)
      from Cons.IH [OF this] Some False show ?thesis by auto
    qed
  qed
qed

lemma closest_nearest:
  assumes "foldl (closestStep e c) None cs = Some (r, m)"
  shows "r \<in> set cs \<and> timeDiffOf e c r = Some m
       \<and> (\<forall>x \<in> set cs. \<forall>dx. timeDiffOf e c x = Some dx \<longrightarrow> m \<le> dx)"
  using assms
proof (induction cs)
  case Nil
  then show ?case by simp
next
  case (Cons x xs)
  show ?case
  proof (cases "timeDiffOf e c x")
    case None
    with Cons.prems have "foldl (closestStep e c) None xs = Some (r, m)"
      by (simp add: closestStep_skip)
    from Cons.IH [OF this] None show ?thesis by auto
  next
    case (Some td)
    with Cons.prems have "foldl (closestStep e c) (Some (x, td)) xs = Some (r, m)"
      by (simp add: closestStep_first)
    from closest_from_Some [OF this] Some show ?thesis by auto
  qed
qed

lemma find_rev_filter:
  "find P (rev xs) = (if filter P xs = [] then None else Some (last (filter P xs)))"
  by (induction xs rule: rev_induct) auto

lemma findLatest_last:
  "findLatest emp rows =
     (if candidateRows emp rows = [] then None else Some (last (candidateRows emp rows)))"
  by (simp add: findLatest_def candidateRows_def find_rev_filter)

lemma findByName_none: "candidateRows emp rows = [] \<Longrightarrow> findByName e emp c rows = None"
  by (simp add: findByName_def)

lemma findByName_unique: "candidateRows emp rows = [r] \<Longrightarrow> findByName e emp c rows = Some r"
  by (simp add: findByName_def)

lemma findByName_several:
  "1 < length (candidateRows emp rows) \<Longrightarrow>
   findByName e emp c rows =
     (case foldl (closestStep e c) None (candidateRows emp rows) of
        None \<Rightarrow> None
      | Some (closestRow, minTimeDiff) \<Rightarrow>
          if minTimeDiff < 300000 then Some closestRow else None)"
  by (cases "candidateRows emp rows"; cases "tl (candidateRows emp rows)")
     (auto simp: findByName_def)

lemma locate_stage1:
  "findByIndex emp wr rows = Some r \<Longrightarrow> locateMainRow e emp wr rows = Some r"
  by (simp add: locateMainRow_def)

lemma locate_stage2:
  "findByIndex emp wr rows = None \<Longrightarrow> candidateRows emp rows = [r] \<Longrightarrow>
   locateMainRow e emp wr rows = Some r"
  by (simp add: locateMainRow_def findByName_unique)

lemma locate_stage3:
  assumes "findByIndex emp wr rows = None" "1 < length (candidateRows emp rows)"
    "foldl (closestStep e (work_record.clockIn wr)) None (candidateRows emp rows) = Some (r, m)"
    "m < 300000"
  shows "locateMainRow e emp wr rows = Some r"
  using assms by (simp add: locateMainRow_def findByName_several)

lemma locate_stage4:
  assumes "findByIndex emp wr rows = None" "1 < length (candidateRows emp rows)"
    "\<forall>r m. foldl (closestStep e (work_record.clockIn wr)) None (candidateRows emp rows)
        = Some (r, m) \<longrightarrow> \<not> m < 300000"
  shows "locateMainRow e emp wr rows = Some (last (candidateRows emp rows))"
proof -
  have "findByName e emp (work_record.clockIn wr) rows = None"
    using assms(2,3) by (auto simp: findByName_several split: option.splits)
  moreover have "candidateRows emp rows \<noteq> []" using assms(2) by auto
  ultimately show ?thesis using assms(1)
    by (simp add: locateMainRow_def findLatest_last)
qed

lemma locate_none_iff:
  "locateMainRow e emp wr rows = None \<longleftrightarrow>
     findByIndex emp wr rows = None \<and> candidateRows emp rows = []"
proof
  assume n: "locateMainRow e emp wr rows = None"
  then have i: "findByIndex emp wr rows = None"
    by (simp add: locateMainRow_def split: option.splits)
  with n have "findLatest emp rows = None"
    by (simp add: locateMainRow_def split: option.splits)
  then have "candidateRows emp rows = []"
    by (simp add: findLatest_last split: if_splits)
  with i show "findByIndex emp wr rows = None \<and> candidateRows emp rows = []" by simp
next
  assume "findByIndex emp wr rows = None \<and> candidateRows emp rows = []"
  then show "locateMainRow e emp wr rows = None"
    by (simp add: locateMainRow_def findByName_none findLatest_last)
qed

lemma clockOut_on_work:
  assumes "getEmployeeStatus (clock e) (getRows e) (employee d) s
             = (\<lparr>isOnWork = True, workRecord = Some wr\<rparr>, s1)"
    and "getSheetError e ''MAIN'' = None"
    and "getCachedSheetData (clock e) (getRows e) ''MAIN'' s1 = (Inr rows, s2)"
  shows "clockOut e d (s, st) =
     (case locateMainRow e (employee d) wr rows of
        None \<Rightarrow> (NoMatchingRecord, s2, st)
      | Some mainRow \<Rightarrow>
          (case saveError e of
             Some err \<Rightarrow> (ClockOutError (updateFailedPrefix @ message err), s2, st)
           | None \<Rightarrow>
               (case deleteError e (row wr) of
                  Some err \<Rightarrow>
                    (successOf e d wr, s2,
                     st\<lparr>mainCells := applyUpdates (cellsOf e d wr mainRow) (mainCells st)\<rparr>)
                | None \<Rightarrow>
                    (successOf e d wr, snd (clearCaches [''onwork'', ''main'', ''stats''] s2),
                     st\<lparr>mainCells := applyUpdates (cellsOf e d wr mainRow) (mainCells st),
                        onWork := filter (\<lambda>x. rowNumber x \<noteq> rowNumber (row wr)) (onWork st)\<rparr>))))"
  using assms
  by (simp add: clockOut_def Let_def writeMain_def deleteRow_def successOf_def cellsOf_def
      hoursOf_def split: option.splits)


lemma example_name_match: "isNameMatch (Some ''somchai  jones'') (Some ''Somchai Jones'')"
  by code_simp

lemma example_ref3: "refIndex (Some ''3'') = Some 3"
  by code_simp

lemma example_ref2: "refIndex (Some ''2'') = Some 2"
  by code_simp

lemma example_status:
  "statusOfRows (Some ''somchai  jones'') exampleOnWork =
     \<lparr>isOnWork = True, workRecord = Some (sessionOf (Some 3) ''2025-01-01 08:00:00'')\<rparr>"
  by (simp add: statusOfRows_def exampleOnWork_def mkRow_def sessionOf_def
      example_name_match example_ref3)

lemma example_status_stale:
  "\<exists>wr. statusOfRows (Some ''somchai  jones'') exampleOnWorkStale =
          \<lparr>isOnWork = True, workRecord = Some wr\<rparr>
        \<and> mainRowIndex wr = Some 2 \<and> row wr = hd exampleOnWorkStale"
  by (simp add: statusOfRows_def exampleOnWorkStale_def mkRow_def
      example_name_match example_ref2)

lemma new_service_reads:
  assumes "r ''ON WORK'' = Inr onw" "r ''MAIN'' = Inr mainRows"
  shows "\<exists>s1 s2. getEmployeeStatus 5000 r emp newService = (statusOfRows emp onw, s1)
           \<and> getCachedSheetData 5000 r ''MAIN'' s1 = (Inr mainRows, s2)"
proof -
  let ?s1 = "setCache 5000 ''onwork'' onw (afterCall 5000 ''ON WORK'' newService)"
  have v0: "\<not> isCacheValid 5000 newService (cacheKeyOf ''ON WORK'')"
    by (simp add: key_onwork isCacheValid_def newService_def GoogleSheetsService_new_def)
  have g0: "fst (canMakeAPICall 5000 (apiMonitor newService))"
    by (simp add: newService_def GoogleSheetsService_new_def APIMonitor_new_def
        canMakeAPICall_def)
  have f1: "getCachedSheetData 5000 r ''ON WORK'' newService = (Inr onw, ?s1)"
    using v0 g0 assms(1) by (simp add: fetch_remote_ok key_onwork)
  have st: "getEmployeeStatus 5000 r emp newService = (statusOfRows emp onw, ?s1)"
    by (rule getEmployeeStatus_ok [OF f1])
  have v1: "\<not> isCacheValid 5000 ?s1 (cacheKeyOf ''MAIN'')"
    by (simp add: key_main isCacheValid_def setCache_def afterCall_def Let_def newService_def
        GoogleSheetsService_new_def emptyEntry_def)
  have g1: "fst (canMakeAPICall 5000 (apiMonitor ?s1))"
    by (simp add: setCache_def afterCall_def Let_def newService_def GoogleSheetsService_new_def
        APIMonitor_new_def canMakeAPICall_def logAPICall_def finishCall_def)
  have f2: "getCachedSheetData 5000 r ''MAIN'' ?s1 =
      (Inr mainRows, setCache 5000 (cacheKeyOf ''MAIN'') mainRows (afterCall 5000 ''MAIN'' ?s1))"
    using v1 g1 assms(2) by (rule fetch_remote_ok)
  from st f2 show ?thesis by blast
qed

text \<open>
  C1, as the code has it, for every request name \<open>emp\<close>, open session \<open>wr\<close> and ledger
  \<open>rows\<close>. The row to close is searched in four stages, the first match ending the search:
  \<^item> stage 1 takes the row at the stored index (index minus 2, in range) when its
    employee name matches the request name, whether or not that row is open;
  \<^item> stage 2 takes the only open row with a matching name when there is exactly one;
  \<^item> stage 3, with several such rows, takes the one whose clock-in is nearest to the
    clock-in of the session when that difference is below 300000 ms;
  \<^item> stage 4 takes the last open row with a matching name.
  No row is found exactly when stage 1 fails and no open row matches; \<open>clockOut\<close> then
  returns the no-matching-record result and leaves the sheets as they were. When a row is
  found and the write succeeds, the cells of that row are the ones written. When the
  ledger holds exactly one open row of the employee, that row is the one closed provided
  stage 1 does not accept another row.
\<close>

theorem clockOut_locates_row:
  "(\<forall>r. findByIndex emp wr rows = Some r \<longleftrightarrow>
        (\<exists>idx. mainRowIndex wr = Some idx \<and> 1 < idx \<and> idx - 2 < int (length rows)
           \<and> r = rows ! nat (idx - 2) \<and> isNameMatch emp (get r EmployeeName)))
   \<and> (\<forall>r. findByIndex emp wr rows = Some r \<longrightarrow> locateMainRow e emp wr rows = Some r)
   \<and> (\<forall>r. findByIndex emp wr rows = None \<and> candidateRows emp rows = [r]
        \<longrightarrow> locateMainRow e emp wr rows = Some r)
   \<and> (\<forall>r m. findByIndex emp wr rows = None \<and> 1 < length (candidateRows emp rows)
        \<and> foldl (closestStep e (work_record.clockIn wr)) None (candidateRows emp rows)
            = Some (r, m)
        \<and> m < 300000
        \<longrightarrow> locateMainRow e emp wr rows = Some r
            \<and> r \<in> set (candidateRows emp rows)
            \<and> timeDiffOf e (work_record.clockIn wr) r = Some m
            \<and> (\<forall>x \<in> set (candidateRows emp rows). \<forall>dx.
                  timeDiffOf e (work_record.clockIn wr) x = Some dx \<longrightarrow> m \<le> dx))
   \<and> (findByIndex emp wr rows = None \<and> 1 < length (candidateRows emp rows)
        \<and> (\<forall>r m. foldl (closestStep e (work_record.clockIn wr)) None (candidateRows emp rows)
              = Some (r, m) \<longrightarrow> \<not> m < 300000)
        \<longrightarrow> locateMainRow e emp wr rows = Some (last (candidateRows emp rows)))
   \<and> (locateMainRow e emp wr rows = None \<longleftrightarrow>
        findByIndex emp wr rows = None \<and> candidateRows emp rows = [])
   \<and> (\<forall>d s s1 s2 st.
        employee d = emp
        \<and> getEmployeeStatus (clock e) (getRows e) emp s
            = (\<lparr>isOnWork = True, workRecord = Some wr\<rparr>, s1)
        \<and> getSheetError e ''MAIN'' = None
        \<and> getCachedSheetData (clock e) (getRows e) ''MAIN'' s1 = (Inr rows, s2)
        \<and> locateMainRow e emp wr rows = None
        \<longrightarrow> clockOut e d (s, st) = (NoMatchingRecord, s2, st))
   \<and> (\<forall>d s s1 s2 st mainRow.
        employee d = emp
        \<and> getEmployeeStatus (clock e) (getRows e) emp s
            = (\<lparr>isOnWork = True, workRecord = Some wr\<rparr>, s1)
        \<and> getSheetError e ''MAIN'' = None
        \<and> getCachedSheetData (clock e) (getRows e) ''MAIN'' s1 = (Inr rows, s2)
        \<and> locateMainRow e emp wr rows = Some mainRow
        \<and> saveError e = None
        \<longrightarrow> fst (clockOut e d (s, st)) = successOf e d wr
            \<and> mainCells (snd (snd (clockOut e d (s, st))))
                = applyUpdates (cellsOf e d wr mainRow) (mainCells st))
   \<and> (\<forall>r. candidateRows emp rows = [r]
        \<and> (findByIndex emp wr rows = None \<or> findByIndex emp wr rows = Some r)
        \<longrightarrow> locateMainRow e emp wr rows = Some r)"
proof (intro conjI allI impI)
  fix r
  show "findByIndex emp wr rows = Some r \<longleftrightarrow>
        (\<exists>idx. mainRowIndex wr = Some idx \<and> 1 < idx \<and> idx - 2 < int (length rows)
           \<and> r = rows ! nat (idx - 2) \<and> isNameMatch emp (get r EmployeeName))"
    by (rule findByIndex_iff)
next
  fix r assume "findByIndex emp wr rows = Some r"
  then show "locateMainRow e emp wr rows = Some r" by (rule locate_stage1)
next
  fix r assume "findByIndex emp wr rows = None \<and> candidateRows emp rows = [r]"
  then show "locateMainRow e emp wr rows = Some r" by (simp add: locate_stage2)
next
  fix r m
  assume h: "findByIndex emp wr rows = None \<and> 1 < length (candidateRows emp rows)
        \<and> foldl (closestStep e (work_record.clockIn wr)) None (candidateRows emp rows)
            = Some (r, m)
        \<and> m < 300000"
  then show "locateMainRow e emp wr rows = Some r" by (simp add: locate_stage3)
  from h have c: "foldl (closestStep e (work_record.clockIn wr)) None (candidateRows emp rows)
            = Some (r, m)" by simp
  from closest_nearest [OF c] show "r \<in> set (candidateRows emp rows)" by simp
  from closest_nearest [OF c] show "timeDiffOf e (work_record.clockIn wr) r = Some m" by simp
  from closest_nearest [OF c]
  show "\<forall>x \<in> set (candidateRows emp rows). \<forall>dx.
          timeDiffOf e (work_record.clockIn wr) x = Some dx \<longrightarrow> m \<le> dx" by simp
next
  assume "findByIndex emp wr rows = None \<and> 1 < length (candidateRows emp rows)
        \<and> (\<forall>r m. foldl (closestStep e (work_record.clockIn wr)) None (candidateRows emp rows)
              = Some (r, m) \<longrightarrow> \<not> m < 300000)"
  then show "locateMainRow e emp wr rows = Some (last (candidateRows emp rows))"
    using locate_stage4 [of emp wr rows e] by blast
next
  show "locateMainRow e emp wr rows = None \<longleftrightarrow>
        findByIndex emp wr rows = None \<and> candidateRows emp rows = []"
    by (rule locate_none_iff)
next
  fix d :: clock_data and s s1 s2 :: service and st :: sheets
  assume h: "employee d = emp
        \<and> getEmployeeStatus (clock e) (getRows e) emp s
            = (\<lparr>isOnWork = True, workRecord = Some wr\<rparr>, s1)
        \<and> getSheetError e ''MAIN'' = None
        \<and> getCachedSheetData (clock e) (getRows e) ''MAIN'' s1 = (Inr rows, s2)
        \<and> locateMainRow e emp wr rows = None"
  from h have a: "getEmployeeStatus (clock e) (getRows e) (employee d) s
      = (\<lparr>isOnWork = True, workRecord = Some wr\<rparr>, s1)" by simp
  from h have b: "getSheetError e ''MAIN'' = None" by simp
  from h have c: "getCachedSheetData (clock e) (getRows e) ''MAIN'' s1 = (Inr rows, s2)"
    by simp
  from h have l: "locateMainRow e (employee d) wr rows = None" by simp
  show "clockOut e d (s, st) = (NoMatchingRecord, s2, st)"
    by (simp add: clockOut_on_work [OF a b c] l)
next
  fix d :: clock_data and s s1 s2 :: service and st :: sheets and mainRow :: sheet_row
  assume h: "employee d = emp
        \<and> getEmployeeStatus (clock e) (getRows e) emp s
            = (\<lparr>isOnWork = True, workRecord = Some wr\<rparr>, s1)
        \<and> getSheetError e ''MAIN'' = None
        \<and> getCachedSheetData (clock e) (getRows e) ''MAIN'' s1 = (Inr rows, s2)
        \<and> locateMainRow e emp wr rows = Some mainRow
        \<and> saveError e = None"
  from h have a: "getEmployeeStatus (clock e) (getRows e) (employee d) s
      = (\<lparr>isOnWork = True, workRecord = Some wr\<rparr>, s1)" by simp
  from h have b: "getSheetError e ''MAIN'' = None" by simp
  from h have c: "getCachedSheetData (clock e) (getRows e) ''MAIN'' s1 = (Inr rows, s2)"
    by simp
  from h have l: "locateMainRow e (employee d) wr rows = Some mainRow" by simp
  from h have w: "saveError e = None" by simp
  show "fst (clockOut e d (s, st)) = successOf e d wr"
    by (simp add: clockOut_on_work [OF a b c] l w split: option.splits)
  show "mainCells (snd (snd (clockOut e d (s, st))))
                = applyUpdates (cellsOf e d wr mainRow) (mainCells st)"
    by (simp add: clockOut_on_work [OF a b c] l w split: option.splits)
next
  fix r
  assume "candidateRows emp rows = [r]
        \<and> (findByIndex emp wr rows = None \<or> findByIndex emp wr rows = Some r)"
  then show "locateMainRow e emp wr rows = Some r"
    using locate_stage1 [of emp wr rows r e] locate_stage2 [of emp wr rows r e] by blast
qed


lemma example_candidates: "candidateRows (Some ''somchai  jones'') exampleMain = [exampleMain ! 1]"
  by (simp add: candidateRows_def exampleMain_def mkRow_def example_name_match truthy_def)

lemma example_candidates_two:
  "candidateRows (Some ''somchai  jones'') exampleMainTwoOpen = exampleMainTwoOpen"
  by (simp add: candidateRows_def exampleMainTwoOpen_def mkRow_def example_name_match truthy_def)

lemma example_candidates_closed:
  "candidateRows (Some ''somchai  jones'') exampleMainClosed = []"
  by (simp add: candidateRows_def exampleMainClosed_def mkRow_def example_name_match truthy_def)

lemma example_no_index: "findByIndex emp (sessionOf None ci) rows = None"
  by (simp add: findByIndex_def sessionOf_def)

lemma example_index3:
  "findByIndex (Some ''somchai  jones'') (sessionOf (Some 3) ci) exampleMain
     = Some (exampleMain ! 1)"
  by (simp add: findByIndex_def sessionOf_def exampleMain_def mkRow_def example_name_match)

lemma example_index3_closed:
  "findByIndex (Some ''somchai  jones'') (sessionOf (Some 3) ci) exampleMainClosed = None"
  by (simp add: findByIndex_def sessionOf_def exampleMainClosed_def)

lemma example_closest_near:
  "foldl (closestStep (exampleEnv r) (work_record.clockIn (sessionOf None ''2025-01-01 08:00:00'')))
      None exampleMainTwoOpen = Some (exampleMainTwoOpen ! 1, 0)"
  by (simp add: closestStep_def sessionOf_def exampleMainTwoOpen_def mkRow_def exampleEnv_def
      exampleDate_def)

lemma example_closest_far:
  "foldl (closestStep (exampleEnv r) (work_record.clockIn (sessionOf None ''2025-01-01 23:59:59'')))
      None exampleMainTwoOpen = Some (exampleMainTwoOpen ! 0, 23399000)"
  by (simp add: closestStep_def sessionOf_def exampleMainTwoOpen_def mkRow_def exampleEnv_def
      exampleDate_def)


text \<open>
  Witness on the example data, for the request name \<open>somchai  jones\<close>: stage 1 finds row 3
  by the stored index 3; with no stored index stage 2 finds the only open row; with two
  open rows stage 3 finds the one clocked in at the time of the session, and when the
  session is no nearer than five minutes to either, stage 4 finds the last; with the only
  row closed and the index out of range nothing is found, \<open>clockOut\<close> reports no matching
  record and the sheets are unchanged; on the example ledger \<open>clockOut\<close> succeeds and
  writes the clock-out time to cell F3.
\<close>

theorem clockOut_locates_row_witness:
  "locateMainRow (exampleEnv exampleRemote) (Some ''somchai  jones'')
       (sessionOf (Some 3) ''2025-01-01 08:00:00'') exampleMain = Some (exampleMain ! 1)
   \<and> locateMainRow (exampleEnv exampleRemote) (Some ''somchai  jones'')
       (sessionOf None ''2025-01-01 08:00:00'') exampleMain = Some (exampleMain ! 1)
   \<and> locateMainRow (exampleEnv exampleRemote) (Some ''somchai  jones'')
       (sessionOf None ''2025-01-01 08:00:00'') exampleMainTwoOpen = Some (exampleMainTwoOpen ! 1)
   \<and> locateMainRow (exampleEnv exampleRemote) (Some ''somchai  jones'')
       (sessionOf None ''2025-01-01 23:59:59'') exampleMainTwoOpen
       = Some (last exampleMainTwoOpen)
   \<and> locateMainRow (exampleEnv exampleRemote) (Some ''somchai  jones'')
       (sessionOf (Some 3) ''2025-01-01 08:00:00'') exampleMainClosed = None
   \<and> fst (clockOut (exampleEnv (remoteOf exampleOnWork exampleMainClosed)) exampleData
         (newService, exampleSheets)) = NoMatchingRecord
   \<and> snd (snd (clockOut (exampleEnv (remoteOf exampleOnWork exampleMainClosed)) exampleData
         (newService, exampleSheets))) = exampleSheets
   \<and> fst (clockOut (exampleEnv (remoteOf exampleOnWork exampleMain)) exampleData
         (newService, exampleSheets)) = ClockedOut ''17:30:00'' ''0.00''
   \<and> mainCells (snd (snd (clockOut (exampleEnv (remoteOf exampleOnWork exampleMain))
         exampleData (newService, exampleSheets)))) (CHR ''F'', 3)
       = Some ''01/01/2025 17:30:00''"
proof -
  let ?emp = "Some ''somchai  jones''"
  let ?E = "exampleEnv exampleRemote"
  let ?W3 = "sessionOf (Some 3) ''2025-01-01 08:00:00''"
  let ?W0 = "sessionOf None ''2025-01-01 08:00:00''"
  let ?WL = "sessionOf None ''2025-01-01 23:59:59''"
  note stage1 = clockOut_locates_row [THEN conjunct2, THEN conjunct1, rule_format]
  note stage2 = clockOut_locates_row [THEN conjunct2, THEN conjunct2, THEN conjunct1,
      rule_format]
  note stage3 = clockOut_locates_row [THEN conjunct2, THEN conjunct2, THEN conjunct2,
      THEN conjunct1, rule_format]
  note stage4 = clockOut_locates_row [THEN conjunct2, THEN conjunct2, THEN conjunct2,
      THEN conjunct2, THEN conjunct1, rule_format]
  note none = clockOut_locates_row [THEN conjunct2, THEN conjunct2, THEN conjunct2,
      THEN conjunct2, THEN conjunct2, THEN conjunct1]
  note failed = clockOut_locates_row [THEN conjunct2, THEN conjunct2, THEN conjunct2,
      THEN conjunct2, THEN conjunct2, THEN conjunct2, THEN conjunct1, rule_format]
  note closed = clockOut_locates_row [THEN conjunct2, THEN conjunct2, THEN conjunct2,
      THEN conjunct2, THEN conjunct2, THEN conjunct2, THEN conjunct2, THEN conjunct1,
      rule_format]
  have w1: "locateMainRow ?E ?emp ?W3 exampleMain = Some (exampleMain ! 1)"
    by (rule stage1) (rule example_index3)
  have w2: "locateMainRow ?E ?emp ?W0 exampleMain = Some (exampleMain ! 1)"
    by (rule stage2) (simp add: example_no_index example_candidates)
  have len2: "1 < length (candidateRows ?emp exampleMainTwoOpen)"
    by (simp add: example_candidates_two) (simp add: exampleMainTwoOpen_def)
  have near: "foldl (closestStep ?E (work_record.clockIn ?W0)) None
      (candidateRows ?emp exampleMainTwoOpen) = Some (exampleMainTwoOpen ! 1, 0)"
    by (simp only: example_candidates_two example_closest_near)
  have w3: "locateMainRow ?E ?emp ?W0 exampleMainTwoOpen = Some (exampleMainTwoOpen ! 1)"
    by (rule stage3 [THEN conjunct1], intro conjI, rule example_no_index, rule len2,
        rule near, simp)
  have far: "\<forall>r m. foldl (closestStep ?E (work_record.clockIn ?WL)) None
      (candidateRows ?emp exampleMainTwoOpen) = Some (r, m) \<longrightarrow> \<not> m < 300000"
    by (simp only: example_candidates_two example_closest_far) simp
  have "locateMainRow ?E ?emp ?WL exampleMainTwoOpen
      = Some (last (candidateRows ?emp exampleMainTwoOpen))"
    by (rule stage4, intro conjI, rule example_no_index, rule len2, rule far)
  then have w4: "locateMainRow ?E ?emp ?WL exampleMainTwoOpen = Some (last exampleMainTwoOpen)"
    by (simp only: example_candidates_two)
  have w5: "locateMainRow ?E ?emp ?W3 exampleMainClosed = None"
    by (simp only: none example_index3_closed example_candidates_closed)
  let ?EC = "exampleEnv (remoteOf exampleOnWork exampleMainClosed)"
  let ?EM = "exampleEnv (remoteOf exampleOnWork exampleMain)"
  have d: "employee exampleData = ?emp" by (simp add: exampleData_def)
  have envC: "clock ?EC = 5000" "getRows ?EC = remoteOf exampleOnWork exampleMainClosed"
    "getSheetError ?EC ''MAIN'' = None"
    by (simp_all add: exampleEnv_def)
  have envM: "clock ?EM = 5000" "getRows ?EM = remoteOf exampleOnWork exampleMain"
    "getSheetError ?EM ''MAIN'' = None" "saveError ?EM = None"
    by (simp_all add: exampleEnv_def)
  have rC: "remoteOf exampleOnWork exampleMainClosed ''ON WORK'' = Inr exampleOnWork"
    "remoteOf exampleOnWork exampleMainClosed ''MAIN'' = Inr exampleMainClosed"
    by (simp_all add: remoteOf_def)
  have rM: "remoteOf exampleOnWork exampleMain ''ON WORK'' = Inr exampleOnWork"
    "remoteOf exampleOnWork exampleMain ''MAIN'' = Inr exampleMain"
    by (simp_all add: remoteOf_def)
  obtain c1 c2 where
    cst: "getEmployeeStatus 5000 (remoteOf exampleOnWork exampleMainClosed) ?emp newService
        = (statusOfRows ?emp exampleOnWork, c1)"
    and cmain: "getCachedSheetData 5000 (remoteOf exampleOnWork exampleMainClosed) ''MAIN'' c1
        = (Inr exampleMainClosed, c2)"
    using new_service_reads [OF rC, of ?emp] by blast
  have lc: "locateMainRow ?EC ?emp ?W3 exampleMainClosed = None"
    by (simp only: none example_index3_closed example_candidates_closed)
  have cst': "getEmployeeStatus (clock ?EC) (getRows ?EC) ?emp newService
        = (\<lparr>isOnWork = True, workRecord = Some ?W3\<rparr>, c1)"
    by (simp only: envC cst example_status)
  have cmain': "getCachedSheetData (clock ?EC) (getRows ?EC) ''MAIN'' c1
        = (Inr exampleMainClosed, c2)"
    by (simp only: envC cmain)
  have w6: "clockOut ?EC exampleData (newService, exampleSheets)
      = (NoMatchingRecord, c2, exampleSheets)"
    by (rule failed [where ?s1.0 = c1 and wr = ?W3 and rows = exampleMainClosed],
        intro conjI, rule d, rule cst', rule envC(3), rule cmain', rule lc)
  obtain m1 m2 where
    mst: "getEmployeeStatus 5000 (remoteOf exampleOnWork exampleMain) ?emp newService
        = (statusOfRows ?emp exampleOnWork, m1)"
    and mmain: "getCachedSheetData 5000 (remoteOf exampleOnWork exampleMain) ''MAIN'' m1
        = (Inr exampleMain, m2)"
    using new_service_reads [OF rM, of ?emp] by blast
  have lm: "locateMainRow ?EM ?emp ?W3 exampleMain = Some (exampleMain ! 1)"
    by (rule stage1) (rule example_index3)
  have mst': "getEmployeeStatus (clock ?EM) (getRows ?EM) ?emp newService
        = (\<lparr>isOnWork = True, workRecord = Some ?W3\<rparr>, m1)"
    by (simp only: envM mst example_status)
  have mmain': "getCachedSheetData (clock ?EM) (getRows ?EM) ''MAIN'' m1
        = (Inr exampleMain, m2)"
    by (simp only: envM mmain)
  have w7: "fst (clockOut ?EM exampleData (newService, exampleSheets))
        = successOf ?EM exampleData ?W3
      \<and> mainCells (snd (snd (clockOut ?EM exampleData (newService, exampleSheets))))
        = applyUpdates (cellsOf ?EM exampleData ?W3 (exampleMain ! 1)) (mainCells exampleSheets)"
    by (rule closed [where ?s1.0 = m1 and ?s2.0 = m2 and rows = exampleMain],
        intro conjI, rule d, rule mst', rule envM(3), rule mmain', rule lm, rule envM(4))
  have v1: "successOf ?EM exampleData ?W3 = ClockedOut ''17:30:00'' ''0.00''"
    by code_simp
  have v2: "applyUpdates (cellsOf ?EM exampleData ?W3 (exampleMain ! 1)) (mainCells exampleSheets)
      (CHR ''F'', 3) = Some ''01/01/2025 17:30:00''"
    by code_simp
  have w6a: "fst (clockOut ?EC exampleData (newService, exampleSheets)) = NoMatchingRecord"
    by (simp only: w6 fst_conv)
  have w6b: "snd (snd (clockOut ?EC exampleData (newService, exampleSheets))) = exampleSheets"
    by (simp only: w6 snd_conv)
  have w7a: "fst (clockOut ?EM exampleData (newService, exampleSheets))
      = ClockedOut ''17:30:00'' ''0.00''"
    using w7 v1 by (simp only:)
  have w7b: "mainCells (snd (snd (clockOut ?EM exampleData (newService, exampleSheets))))
      (CHR ''F'', 3) = Some ''01/01/2025 17:30:00''"
    using w7 v2 by (simp only:)
  show ?thesis
    by (intro conjI) (rule w1 w2 w3 w4 w5 w6a w6b w7a w7b)+
qed


text \<open>
  The claim as worded fails in its last part. The example ledger holds exactly one open
  row of the employee, row 3. When the open session stores the index 2, stage 1 accepts
  row 2, whose name matches although it is closed: \<open>clockOut\<close> succeeds, overwrites the
  clock-out cell F2 and leaves F3, the cell of the open row, empty.
\<close>

theorem clockOut_stale_index_counterexample:
  "map rowNumber (candidateRows (employee exampleData) exampleMain) = [3]
   \<and> fst (clockOut (exampleEnv (remoteOf exampleOnWorkStale exampleMain)) exampleData
         (newService, exampleSheets)) = ClockedOut ''17:30:00'' ''0.00''
   \<and> mainCells (snd (snd (clockOut (exampleEnv (remoteOf exampleOnWorkStale exampleMain))
         exampleData (newService, exampleSheets)))) (CHR ''F'', 2)
       = Some ''01/01/2025 17:30:00''
   \<and> mainCells (snd (snd (clockOut (exampleEnv (remoteOf exampleOnWorkStale exampleMain))
         exampleData (newService, exampleSheets)))) (CHR ''F'', 3) = None"
  by code_simp


lemma applyUpdates_clockOut:
  "applyUpdates (clockOutUpdates n ts la lo locName h) cells =
     cells((CHR ''F'', n) := Some ts, (CHR ''I'', n) := Some (la @ '','' @ lo),
           (CHR ''J'', n) := Some locName, (CHR ''K'', n) := Some (toFixed2 h))"
  by (simp add: applyUpdates_def clockOutUpdates_def)

lemma clockOut_not_on_work:
  assumes "getEmployeeStatus (clock e) (getRows e) (employee d) s = (es, s1)" "\<not> isOnWork es"
  shows "fst (clockOut e d (s, st)) \<noteq> ClockedOut t h"
  using assms by (simp add: clockOut_def Let_def split: prod.splits sum.splits)

lemma clockOut_no_record:
  assumes "getEmployeeStatus (clock e) (getRows e) (employee d) s = (es, s1)"
    "isOnWork es" "workRecord es = None"
  shows "fst (clockOut e d (s, st)) \<noteq> ClockedOut t h"
  using assms by (simp add: clockOut_def Let_def)

lemma clockOut_no_sheet:
  assumes "getEmployeeStatus (clock e) (getRows e) (employee d) s = (es, s1)"
    "isOnWork es" "workRecord es = Some wr" "getSheetError e ''MAIN'' = Some err"
  shows "fst (clockOut e d (s, st)) \<noteq> ClockedOut t h"
  using assms by (simp add: clockOut_def Let_def)

lemma clockOut_no_main:
  assumes "getEmployeeStatus (clock e) (getRows e) (employee d) s = (es, s1)"
    "isOnWork es" "workRecord es = Some wr" "getSheetError e ''MAIN'' = None"
    "getCachedSheetData (clock e) (getRows e) ''MAIN'' s1 = (Inl err, s2)"
  shows "fst (clockOut e d (s, st)) \<noteq> ClockedOut t h"
  using assms by (simp add: clockOut_def Let_def)

lemma status_record:
  "isOnWork es \<Longrightarrow> workRecord es = Some wr \<Longrightarrow>
   es = \<lparr>isOnWork = True, workRecord = Some wr\<rparr>"
  by (cases es) simp

lemma clockOut_success_cells:
  assumes ok: "fst (clockOut e d (s, st)) = ClockedOut t h"
  shows "\<exists>n hw. h = toFixed2 hw
           \<and> mainCells (snd (snd (clockOut e d (s, st)))) =
               applyUpdates (clockOutUpdates n (resolveTimestamp e (mock_time d)) (lat d) (lon d)
                  (getLocationName e (lat d) (lon d)) hw) (mainCells st)"
proof -
  obtain es s1 where r0: "getEmployeeStatus (clock e) (getRows e) (employee d) s = (es, s1)"
    by (cases "getEmployeeStatus (clock e) (getRows e) (employee d) s")
  have on: "isOnWork es" using clockOut_not_on_work [OF r0] ok by blast
  obtain wr where wr: "workRecord es = Some wr"
    using clockOut_no_record [OF r0 on] ok by (cases "workRecord es") auto
  have sh: "getSheetError e ''MAIN'' = None"
    using clockOut_no_sheet [OF r0 on wr] ok by (cases "getSheetError e ''MAIN''") auto
  obtain res s2 where m: "getCachedSheetData (clock e) (getRows e) ''MAIN'' s1 = (res, s2)"
    by (cases "getCachedSheetData (clock e) (getRows e) ''MAIN'' s1")
  obtain rows where rows: "res = Inr rows"
    using clockOut_no_main [OF r0 on wr sh] ok m by (cases res) auto
  have st: "getEmployeeStatus (clock e) (getRows e) (employee d) s
      = (\<lparr>isOnWork = True, workRecord = Some wr\<rparr>, s1)"
    using r0 status_record [OF on wr] by simp
  have m': "getCachedSheetData (clock e) (getRows e) ''MAIN'' s1 = (Inr rows, s2)"
    using m rows by simp
  note eq = clockOut_on_work [OF st sh m', of st]
  obtain mainRow where l: "locateMainRow e (employee d) wr rows = Some mainRow"
    using ok eq by (cases "locateMainRow e (employee d) wr rows") auto
  have w: "saveError e = None"
    using ok eq l by (cases "saveError e") auto
  have hh: "h = toFixed2 (hoursOf e d wr)"
    using ok eq l w by (cases "deleteError e (row wr)") (auto simp: successOf_def)
  have cc: "mainCells (snd (snd (clockOut e d (s, st))))
      = applyUpdates (cellsOf e d wr mainRow) (mainCells st)"
    using eq l w by (cases "deleteError e (row wr)") auto
  show ?thesis
    using hh cc unfolding cellsOf_def by blast
qed


lemma wroteFourCells_updates:
  "wroteFourCells cells (applyUpdates (clockOutUpdates n ts la lo loc hw) cells) n ts
     (la @ '','' @ lo) loc (toFixed2 hw)"
  by (simp add: wroteFourCells_def applyUpdates_clockOut)

text \<open>
  C8, as the code has it. Whenever \<open>clockOut\<close> returns its success result, four cells of
  one row \<open>n\<close> of MAIN have been written: F holds the clock-out time, I the exit
  coordinates as one text \<open>lat,lon\<close>, J the exit location label and K the worked hours
  that the result reports. Every other cell of the sheet, the clock-in cell D of that row
  included, is as it was. When the row was located as in C1, \<open>n\<close> is its row number.
\<close>

theorem clockOut_writes_four_cells:
  "(fst (clockOut e d (s, st)) = ClockedOut t h \<longrightarrow>
      (\<exists>n. wroteFourCells (mainCells st) (mainCells (snd (snd (clockOut e d (s, st))))) n
              (resolveTimestamp e (mock_time d)) (lat d @ '','' @ lon d)
              (getLocationName e (lat d) (lon d)) h))
   \<and> (\<forall>wr s1 s2 rows mainRow.
        getEmployeeStatus (clock e) (getRows e) (employee d) s
            = (\<lparr>isOnWork = True, workRecord = Some wr\<rparr>, s1)
        \<and> getSheetError e ''MAIN'' = None
        \<and> getCachedSheetData (clock e) (getRows e) ''MAIN'' s1 = (Inr rows, s2)
        \<and> locateMainRow e (employee d) wr rows = Some mainRow
        \<and> saveError e = None
        \<longrightarrow> wroteFourCells (mainCells st) (mainCells (snd (snd (clockOut e d (s, st)))))
              (int (rowNumber mainRow)) (resolveTimestamp e (mock_time d))
              (lat d @ '','' @ lon d) (getLocationName e (lat d) (lon d))
              (toFixed2 (hoursOf e d wr)))"
proof (intro conjI allI impI)
  assume "fst (clockOut e d (s, st)) = ClockedOut t h"
  from clockOut_success_cells [OF this] obtain n hw where h: "h = toFixed2 hw"
    and c: "mainCells (snd (snd (clockOut e d (s, st)))) =
               applyUpdates (clockOutUpdates n (resolveTimestamp e (mock_time d)) (lat d) (lon d)
                  (getLocationName e (lat d) (lon d)) hw) (mainCells st)"
    by blast
  have "wroteFourCells (mainCells st) (mainCells (snd (snd (clockOut e d (s, st))))) n
              (resolveTimestamp e (mock_time d)) (lat d @ '','' @ lon d)
              (getLocationName e (lat d) (lon d)) h"
    by (simp only: c h wroteFourCells_updates)
  then show "\<exists>n. wroteFourCells (mainCells st) (mainCells (snd (snd (clockOut e d (s, st))))) n
              (resolveTimestamp e (mock_time d)) (lat d @ '','' @ lon d)
              (getLocationName e (lat d) (lon d)) h"
    by (rule exI [of _ n])
next
  fix wr :: work_record and s1 s2 :: service and rows :: "sheet_row list" and mainRow :: sheet_row
  assume h: "getEmployeeStatus (clock e) (getRows e) (employee d) s
            = (\<lparr>isOnWork = True, workRecord = Some wr\<rparr>, s1)
        \<and> getSheetError e ''MAIN'' = None
        \<and> getCachedSheetData (clock e) (getRows e) ''MAIN'' s1 = (Inr rows, s2)
        \<and> locateMainRow e (employee d) wr rows = Some mainRow
        \<and> saveError e = None"
  from h have a: "getEmployeeStatus (clock e) (getRows e) (employee d) s
      = (\<lparr>isOnWork = True, workRecord = Some wr\<rparr>, s1)" by simp
  from h have b: "getSheetError e ''MAIN'' = None" by simp
  from h have c: "getCachedSheetData (clock e) (getRows e) ''MAIN'' s1 = (Inr rows, s2)"
    by simp
  from h have l: "locateMainRow e (employee d) wr rows = Some mainRow" by simp
  from h have w: "saveError e = None" by simp
  have eq: "mainCells (snd (snd (clockOut e d (s, st))))
      = applyUpdates (clockOutUpdates (int (rowNumber mainRow))
          (resolveTimestamp e (mock_time d)) (lat d) (lon d)
          (getLocationName e (lat d) (lon d)) (hoursOf e d wr)) (mainCells st)"
    by (simp add: clockOut_on_work [OF a b c] l w cellsOf_def split: option.splits)
  show "wroteFourCells (mainCells st) (mainCells (snd (snd (clockOut e d (s, st)))))
              (int (rowNumber mainRow)) (resolveTimestamp e (mock_time d))
              (lat d @ '','' @ lon d) (getLocationName e (lat d) (lon d))
              (toFixed2 (hoursOf e d wr))"
    by (simp only: eq wroteFourCells_updates)
qed


lemma example_reads:
  assumes "clock e = 5000" "getRows e = remoteOf exampleOnWork mainRows"
  shows "\<exists>m1 m2.
           getEmployeeStatus (clock e) (getRows e) (employee exampleData) newService
             = (\<lparr>isOnWork = True,
                 workRecord = Some (sessionOf (Some 3) ''2025-01-01 08:00:00'')\<rparr>, m1)
         \<and> getCachedSheetData (clock e) (getRows e) ''MAIN'' m1 = (Inr mainRows, m2)"
proof -
  have r: "remoteOf exampleOnWork mainRows ''ON WORK'' = Inr exampleOnWork"
    "remoteOf exampleOnWork mainRows ''MAIN'' = Inr mainRows"
    by (simp_all add: remoteOf_def)
  have d: "employee exampleData = Some ''somchai  jones''" by (simp add: exampleData_def)
  from new_service_reads [OF r, of "Some ''somchai  jones''"] show ?thesis
    by (simp only: assms d example_status)
qed

lemma example_env:
  "clock (exampleEnv r) = 5000" "getRows (exampleEnv r) = r"
  "getSheetError (exampleEnv r) n = None" "saveError (exampleEnv r) = None"
  by (simp_all add: exampleEnv_def)

lemma example_located:
  "locateMainRow e (employee exampleData) (sessionOf (Some 3) ci) exampleMain
     = Some (exampleMain ! 1)"
  by (simp add: locate_stage1 example_index3 exampleData_def)

lemma example_values:
  "resolveTimestamp (exampleEnv r) (mock_time exampleData) = ''01/01/2025 17:30:00''"
  "lat exampleData @ '','' @ lon exampleData = ''15.1,104.2''"
  "getLocationName (exampleEnv r) (lat exampleData) (lon exampleData) = ''15.1, 104.2''"
  "int (rowNumber (exampleMain ! 1)) = 3"
  by (simp_all add: resolveTimestamp_def exampleEnv_def exampleData_def exampleMain_def
      mkRow_def)

lemma example_hours:
  "toFixed2 (hoursOf (exampleEnv r) exampleData (sessionOf (Some 3) ''2025-01-01 08:00:00''))
     = ''0.00''"
proof -
  have m: "momentTz (exampleEnv r) = momentTzParse" "clock (exampleEnv r) = 5000"
    by (simp_all add: exampleEnv_def)
  have "hoursOf (exampleEnv r) exampleData (sessionOf (Some 3) ''2025-01-01 08:00:00'')
      = calculateWorkingHours momentTzParse 5000 (Some ''2025-01-01 08:00:00'')
          (Some ''01/01/2025 17:30:00'')"
    by (simp add: hoursOf_def sessionOf_def example_values m)
  also have "\<dots> = 0"
    by (simp add: calculateWorkingHours_def momentTzParse_examples)
  finally have "hoursOf (exampleEnv r) exampleData (sessionOf (Some 3) ''2025-01-01 08:00:00'')
      = 0" .
  moreover have "toFixed2 0 = ''0.00''" by code_simp
  ultimately show ?thesis by simp
qed

text \<open>
  Witness on the example data: \<open>clockOut\<close> succeeds, and it has written the cells F3,
  I3, J3 and K3 and no other cell; D3 still holds the clock-in.
\<close>

theorem clockOut_writes_four_cells_witness:
  "(\<exists>n. wroteFourCells (mainCells exampleSheets)
          (mainCells (snd (snd (clockOut (exampleEnv (remoteOf exampleOnWork exampleMain))
             exampleData (newService, exampleSheets)))))
          n ''01/01/2025 17:30:00'' ''15.1,104.2'' ''15.1, 104.2'' ''0.00'')
   \<and> wroteFourCells (mainCells exampleSheets)
        (mainCells (snd (snd (clockOut (exampleEnv (remoteOf exampleOnWork exampleMain))
           exampleData (newService, exampleSheets)))))
        3 ''01/01/2025 17:30:00'' ''15.1,104.2'' ''15.1, 104.2'' ''0.00''
   \<and> mainCells (snd (snd (clockOut (exampleEnv (remoteOf exampleOnWork exampleMain))
           exampleData (newService, exampleSheets)))) (CHR ''D'', 3)
       = Some ''2025-01-01 08:00:00''"
proof -
  let ?EM = "exampleEnv (remoteOf exampleOnWork exampleMain)"
  let ?W3 = "sessionOf (Some 3) ''2025-01-01 08:00:00''"
  note general = clockOut_writes_four_cells [THEN conjunct1, rule_format]
  note located = clockOut_writes_four_cells [THEN conjunct2, rule_format]
  have ok: "fst (clockOut ?EM exampleData (newService, exampleSheets))
      = ClockedOut ''17:30:00'' ''0.00''"
    by code_simp
  have "\<exists>n. wroteFourCells (mainCells exampleSheets)
      (mainCells (snd (snd (clockOut ?EM exampleData (newService, exampleSheets))))) n
      (resolveTimestamp ?EM (mock_time exampleData)) (lat exampleData @ '','' @ lon exampleData)
      (getLocationName ?EM (lat exampleData) (lon exampleData)) ''0.00''"
    by (rule general [OF ok])
  then have w1: "\<exists>n. wroteFourCells (mainCells exampleSheets)
      (mainCells (snd (snd (clockOut ?EM exampleData (newService, exampleSheets))))) n
      ''01/01/2025 17:30:00'' ''15.1,104.2'' ''15.1, 104.2'' ''0.00''"
    by (simp only: example_values)
  obtain m1 m2 where
    st: "getEmployeeStatus (clock ?EM) (getRows ?EM) (employee exampleData) newService
        = (\<lparr>isOnWork = True, workRecord = Some ?W3\<rparr>, m1)"
    and mn: "getCachedSheetData (clock ?EM) (getRows ?EM) ''MAIN'' m1 = (Inr exampleMain, m2)"
    using example_reads [OF example_env(1) example_env(2)] by blast
  have "wroteFourCells (mainCells exampleSheets)
      (mainCells (snd (snd (clockOut ?EM exampleData (newService, exampleSheets)))))
      (int (rowNumber (exampleMain ! 1))) (resolveTimestamp ?EM (mock_time exampleData))
      (lat exampleData @ '','' @ lon exampleData)
      (getLocationName ?EM (lat exampleData) (lon exampleData))
      (toFixed2 (hoursOf ?EM exampleData ?W3))"
    by (rule located [where ?s1.0 = m1 and ?s2.0 = m2 and rows = exampleMain], intro conjI,
        rule st, rule example_env(3), rule mn, rule example_located, rule example_env(4))
  then have w2: "wroteFourCells (mainCells exampleSheets)
      (mainCells (snd (snd (clockOut ?EM exampleData (newService, exampleSheets)))))
      3 ''01/01/2025 17:30:00'' ''15.1,104.2'' ''15.1, 104.2'' ''0.00''"
    by (simp only: example_values example_hours)
  have "mainCells exampleSheets (CHR ''D'', 3) = Some ''2025-01-01 08:00:00''"
    by (simp add: exampleSheets_def exampleCells_def)
  with w2 have w3: "mainCells (snd (snd (clockOut ?EM exampleData (newService, exampleSheets))))
      (CHR ''D'', 3) = Some ''2025-01-01 08:00:00''"
    by (simp add: wroteFourCells_def)
  show ?thesis using w1 w2 w3 by (intro conjI)
qed

text \<open>
  The claim as worded fails on the count: the cells of row 3 that differ after the
  successful clock-out of the example are F, I, J and K, four cells and not five.
\<close>

theorem clockOut_four_not_five_counterexample:
  "fst (clockOut (exampleEnv (remoteOf exampleOnWork exampleMain)) exampleData
         (newService, exampleSheets)) = ClockedOut ''17:30:00'' ''0.00''
   \<and> filter (\<lambda>c. mainCells (snd (snd (clockOut (exampleEnv (remoteOf exampleOnWork exampleMain))
                    exampleData (newService, exampleSheets)))) (c, 3)
                \<noteq> mainCells exampleSheets (c, 3))
        ''ABCDEFGHIJKLMNOPQRSTUVWXYZ'' = ''FIJK''
   \<and> length ''FIJK'' = 4"
proof -
  let ?EM = "exampleEnv (remoteOf exampleOnWork exampleMain)"
  let ?W3 = "sessionOf (Some 3) ''2025-01-01 08:00:00''"
  obtain m1 m2 where
    st: "getEmployeeStatus (clock ?EM) (getRows ?EM) (employee exampleData) newService
        = (\<lparr>isOnWork = True, workRecord = Some ?W3\<rparr>, m1)"
    and mn: "getCachedSheetData (clock ?EM) (getRows ?EM) ''MAIN'' m1 = (Inr exampleMain, m2)"
    using example_reads [OF example_env(1) example_env(2)] by blast
  have de: "deleteError ?EM (row ?W3) = None" by (simp add: exampleEnv_def)
  note eq = clockOut_on_work [OF st example_env(3) mn, of exampleSheets]
  have ok: "fst (clockOut ?EM exampleData (newService, exampleSheets)) = successOf ?EM exampleData ?W3"
    by (simp add: eq example_located example_env de)
  have v: "successOf ?EM exampleData ?W3 = ClockedOut ''17:30:00'' ''0.00''"
    by code_simp
  have cells: "mainCells (snd (snd (clockOut ?EM exampleData (newService, exampleSheets))))
      = applyUpdates (cellsOf ?EM exampleData ?W3 (exampleMain ! 1)) (mainCells exampleSheets)"
    by (simp add: eq example_located example_env de)
  have diff: "filter (\<lambda>c. applyUpdates (cellsOf ?EM exampleData ?W3 (exampleMain ! 1))
                    (mainCells exampleSheets) (c, 3) \<noteq> mainCells exampleSheets (c, 3))
        ''ABCDEFGHIJKLMNOPQRSTUVWXYZ'' = ''FIJK''"
    by code_simp
  show ?thesis using ok v diff by (simp only: cells) simp
qed


lemma statusOfRows_on_work:
  assumes "statusOfRows emp rows = \<lparr>isOnWork = True, workRecord = Some wr\<rparr>"
  shows "isNameMatch emp (get (row wr) SystemName) \<or> isNameMatch emp (get (row wr) EmployeeName)"
proof (cases "find (\<lambda>r. isNameMatch emp (get r SystemName) \<or>
                         isNameMatch emp (get r EmployeeName)) rows")
  case None
  with assms show ?thesis
    by (simp add: statusOfRows_def notOnWork_def split: if_splits)
next
  case (Some r)
  then have p: "isNameMatch emp (get r SystemName) \<or> isNameMatch emp (get r EmployeeName)"
    by (auto simp: find_Some_iff)
  from assms Some have "row wr = r"
    by (auto simp: statusOfRows_def notOnWork_def Let_def split: if_splits)
  with p show ?thesis by simp
qed

lemma getEmployeeStatus_on_work:
  assumes "getEmployeeStatus now remote emp s = (\<lparr>isOnWork = True, workRecord = Some wr\<rparr>, s1)"
  shows "isNameMatch emp (get (row wr) SystemName) \<or> isNameMatch emp (get (row wr) EmployeeName)"
proof -
  obtain res s0 where g: "safeGetCachedSheetData now remote ''ON WORK'' s = (res, s0)"
    by (cases "safeGetCachedSheetData now remote ''ON WORK'' s")
  show ?thesis
  proof (cases res)
    case (Inl err)
    with assms g show ?thesis by (simp add: getEmployeeStatus_def notOnWork_def)
  next
    case (Inr rows)
    with assms g have "statusOfRows emp rows = \<lparr>isOnWork = True, workRecord = Some wr\<rparr>"
      by (simp add: getEmployeeStatus_def)
    then show ?thesis by (rule statusOfRows_on_work)
  qed
qed

lemma statusOfRows_listed:
  assumes "r \<in> set rows"
    "isNameMatch emp (get r SystemName) \<or> isNameMatch emp (get r EmployeeName)"
  shows "isOnWork (statusOfRows emp rows)"
proof -
  have "find (\<lambda>r. isNameMatch emp (get r SystemName) \<or>
                  isNameMatch emp (get r EmployeeName)) rows \<noteq> None"
    using assms by (auto simp: find_None_iff)
  moreover have "rows \<noteq> []" using assms(1) by auto
  ultimately show ?thesis
    by (auto simp: statusOfRows_def Let_def split: option.splits)
qed

text \<open>
  C10. Let the employee be reported as working with the open session \<open>wr\<close>, let the row
  of MAIN be located and let its cells be saved. If the deletion of the ON WORK row then
  throws, \<open>clockOut\<close> still returns the success result, with the formatted time and the
  hours; the cells of MAIN are written; the rows of ON WORK and the caches are as they
  were, so the session row is still in place; and every later reading of ON WORK that
  lists that row reports the employee as working.
\<close>

theorem clockOut_delete_failure_swallowed:
  "\<forall>wr s1 s2 rows mainRow err.
     getEmployeeStatus (clock e) (getRows e) (employee d) s
         = (\<lparr>isOnWork = True, workRecord = Some wr\<rparr>, s1)
     \<and> getSheetError e ''MAIN'' = None
     \<and> getCachedSheetData (clock e) (getRows e) ''MAIN'' s1 = (Inr rows, s2)
     \<and> locateMainRow e (employee d) wr rows = Some mainRow
     \<and> saveError e = None
     \<and> deleteError e (row wr) = Some err
     \<longrightarrow> clockOut e d (s, st) =
           (ClockedOut (formatTime e (resolveTimestamp e (mock_time d)))
              (toFixed2 (hoursOf e d wr)),
            s2,
            st\<lparr>mainCells := applyUpdates (cellsOf e d wr mainRow) (mainCells st)\<rparr>)
         \<and> onWork (snd (snd (clockOut e d (s, st)))) = onWork st
         \<and> (\<forall>later. row wr \<in> set later \<longrightarrow> isOnWork (statusOfRows (employee d) later))"
proof (intro allI impI)
  fix wr :: work_record and s1 s2 :: service and rows :: "sheet_row list"
    and mainRow :: sheet_row and err :: error
  assume h: "getEmployeeStatus (clock e) (getRows e) (employee d) s
         = (\<lparr>isOnWork = True, workRecord = Some wr\<rparr>, s1)
     \<and> getSheetError e ''MAIN'' = None
     \<and> getCachedSheetData (clock e) (getRows e) ''MAIN'' s1 = (Inr rows, s2)
     \<and> locateMainRow e (employee d) wr rows = Some mainRow
     \<and> saveError e = None
     \<and> deleteError e (row wr) = Some err"
  from h have a: "getEmployeeStatus (clock e) (getRows e) (employee d) s
      = (\<lparr>isOnWork = True, workRecord = Some wr\<rparr>, s1)" by simp
  from h have b: "getSheetError e ''MAIN'' = None" by simp
  from h have c: "getCachedSheetData (clock e) (getRows e) ''MAIN'' s1 = (Inr rows, s2)"
    by simp
  from h have l: "locateMainRow e (employee d) wr rows = Some mainRow" by simp
  from h have w: "saveError e = None" by simp
  from h have de: "deleteError e (row wr) = Some err" by simp
  have eq: "clockOut e d (s, st) =
           (ClockedOut (formatTime e (resolveTimestamp e (mock_time d)))
              (toFixed2 (hoursOf e d wr)),
            s2,
            st\<lparr>mainCells := applyUpdates (cellsOf e d wr mainRow) (mainCells st)\<rparr>)"
    by (simp add: clockOut_on_work [OF a b c] l w de successOf_def)
  have kept: "onWork (snd (snd (clockOut e d (s, st)))) = onWork st"
    by (simp add: eq)
  have m: "isNameMatch (employee d) (get (row wr) SystemName)
      \<or> isNameMatch (employee d) (get (row wr) EmployeeName)"
    by (rule getEmployeeStatus_on_work [OF a])
  have still: "\<forall>later. row wr \<in> set later \<longrightarrow> isOnWork (statusOfRows (employee d) later)"
    using m statusOfRows_listed by blast
  show "clockOut e d (s, st) =
           (ClockedOut (formatTime e (resolveTimestamp e (mock_time d)))
              (toFixed2 (hoursOf e d wr)),
            s2,
            st\<lparr>mainCells := applyUpdates (cellsOf e d wr mainRow) (mainCells st)\<rparr>)
         \<and> onWork (snd (snd (clockOut e d (s, st)))) = onWork st
         \<and> (\<forall>later. row wr \<in> set later \<longrightarrow> isOnWork (statusOfRows (employee d) later))"
    using eq kept still by (intro conjI)
qed

text \<open>
  Witness on the example data with a deletion that throws: \<open>clockOut\<close> reports success
  at 17:30:00 with 0.00 hours, ON WORK still holds the session row and the status
  computed from ON WORK is still the working status.
\<close>

theorem clockOut_delete_failure_swallowed_witness:
  "fst (clockOut ((exampleEnv (remoteOf exampleOnWork exampleMain))
          \<lparr>deleteError := (\<lambda>r. Some (Error ''delete failed''))\<rparr>) exampleData
        (newService, exampleSheets)) = ClockedOut ''17:30:00'' ''0.00''
   \<and> onWork (snd (snd (clockOut ((exampleEnv (remoteOf exampleOnWork exampleMain))
          \<lparr>deleteError := (\<lambda>r. Some (Error ''delete failed''))\<rparr>) exampleData
        (newService, exampleSheets)))) = exampleOnWork
   \<and> isOnWork (statusOfRows (employee exampleData)
        (onWork (snd (snd (clockOut ((exampleEnv (remoteOf exampleOnWork exampleMain))
          \<lparr>deleteError := (\<lambda>r. Some (Error ''delete failed''))\<rparr>) exampleData
        (newService, exampleSheets))))))"
proof -
  let ?ED = "(exampleEnv (remoteOf exampleOnWork exampleMain))
      \<lparr>deleteError := (\<lambda>r. Some (Error ''delete failed''))\<rparr>"
  let ?W3 = "sessionOf (Some 3) ''2025-01-01 08:00:00''"
  have env: "clock ?ED = 5000" "getRows ?ED = remoteOf exampleOnWork exampleMain"
    "getSheetError ?ED ''MAIN'' = None" "saveError ?ED = None"
    "deleteError ?ED (row ?W3) = Some (Error ''delete failed'')"
    by (simp_all add: exampleEnv_def)
  obtain m1 m2 where
    st: "getEmployeeStatus (clock ?ED) (getRows ?ED) (employee exampleData) newService
        = (\<lparr>isOnWork = True, workRecord = Some ?W3\<rparr>, m1)"
    and mn: "getCachedSheetData (clock ?ED) (getRows ?ED) ''MAIN'' m1 = (Inr exampleMain, m2)"
    using example_reads [OF env(1) env(2)] by blast
  have pre: "getEmployeeStatus (clock ?ED) (getRows ?ED) (employee exampleData) newService
         = (\<lparr>isOnWork = True, workRecord = Some ?W3\<rparr>, m1)
     \<and> getSheetError ?ED ''MAIN'' = None
     \<and> getCachedSheetData (clock ?ED) (getRows ?ED) ''MAIN'' m1 = (Inr exampleMain, m2)
     \<and> locateMainRow ?ED (employee exampleData) ?W3 exampleMain = Some (exampleMain ! 1)
     \<and> saveError ?ED = None
     \<and> deleteError ?ED (row ?W3) = Some (Error ''delete failed'')"
    by (intro conjI, rule st, rule env(3), rule mn, rule example_located, rule env(4),
        rule env(5))
  note T = clockOut_delete_failure_swallowed [rule_format, OF pre, of exampleSheets]
  have r: "clockOut ?ED exampleData (newService, exampleSheets) =
           (ClockedOut (formatTime ?ED (resolveTimestamp ?ED (mock_time exampleData)))
              (toFixed2 (hoursOf ?ED exampleData ?W3)),
            m2,
            exampleSheets\<lparr>mainCells := applyUpdates (cellsOf ?ED exampleData ?W3 (exampleMain ! 1))
                             (mainCells exampleSheets)\<rparr>)"
    by (rule T [THEN conjunct1])
  have k: "onWork (snd (snd (clockOut ?ED exampleData (newService, exampleSheets))))
      = onWork exampleSheets"
    by (rule T [THEN conjunct2, THEN conjunct1])
  have l: "\<forall>later. row ?W3 \<in> set later \<longrightarrow> isOnWork (statusOfRows (employee exampleData) later)"
    by (rule T [THEN conjunct2, THEN conjunct2])
  have v: "ClockedOut (formatTime ?ED (resolveTimestamp ?ED (mock_time exampleData)))
      (toFixed2 (hoursOf ?ED exampleData ?W3)) = ClockedOut ''17:30:00'' ''0.00''"
    by code_simp
  have w1: "fst (clockOut ?ED exampleData (newService, exampleSheets))
      = ClockedOut ''17:30:00'' ''0.00''"
    by (simp only: r fst_conv v)
  have ow: "onWork exampleSheets = exampleOnWork" by (simp add: exampleSheets_def)
  have w2: "onWork (snd (snd (clockOut ?ED exampleData (newService, exampleSheets))))
      = exampleOnWork"
    by (simp only: k ow)
  have "row ?W3 \<in> set exampleOnWork"
    by (simp add: sessionOf_def exampleOnWork_def)
  with l have "isOnWork (statusOfRows (employee exampleData) exampleOnWork)" by blast
  then have w3: "isOnWork (statusOfRows (employee exampleData)
      (onWork (snd (snd (clockOut ?ED exampleData (newService, exampleSheets))))))"
    by (simp only: w2)
  show ?thesis using w1 w2 w3 by (intro conjI)
qed


section \<open>Properties of the missed-checkout sweeper\<close>




































section \<open>The format of the clock texts\<close>

lemma toFixed2_8744: "toFixed2 8744 = ''8744.00''"
proof -
  have d: "digitChar 8 = CHR ''8''" "digitChar 7 = CHR ''7''" "digitChar 4 = CHR ''4''"
    "digitChar 0 = CHR ''0''"
    by code_simp+
  have s: "showNat 8744 = ''8744''" by (simp add: d)
  have "\<lfloor>\<bar>8744::rat\<bar> * 100 + 1 / 2\<rfloor> = 874400" by (rule floor_unique) simp_all
  then have n: "nat \<lfloor>\<bar>8744::rat\<bar> * 100 + 1 / 2\<rfloor> = 874400" by simp
  show ?thesis
    unfolding toFixed2_def n Let_def by (simp add: s d)
qed

text \<open>
  C3 at the failing input. \<open>clockIn\<close> and \<open>clockOut\<close> print their timestamps with the
  format \<open>DD/MM/YYYY HH:mm:ss\<close>, and \<open>calculateWorkingHours\<close> parses its arguments with the
  format \<open>YYYY-MM-DD H:mm:ss\<close>. The parse is not strict and accepts a text of the other
  format with its fields displaced: the day is read as a two-digit year, the month as the
  month, and the first two digits of the year as the day.
  \<^item> \<open>01/01/2025 22:00:00\<close> is read as 2001-01-20 22:00:00 and \<open>02/01/2025 06:00:00\<close> as
    2002-01-20 06:00:00, so a night shift of 8 hours is computed as 8744 hours, printed
    8744.00; the same two instants written in the parser's format give 8 hours.
  \<^item> With the clock-in text in the parser's format, the clock-out text that \<open>clockOut\<close>
    passes is read as an instant of 2001, before the clock-in: the hours are 0 where the
    instants are 9.5 hours apart, and \<open>clockOut\<close> on the example data reports 0.00 hours
    for a session from 08:00:00 to 17:30:00.
  \<^item> With the clock-in text in the printed format and the clock-out text in the parser's
    format the hours are 209937.5.
  \<^item> With both texts in the parser's format the result is the difference of the instants:
    9.5 hours, printed 9.50, for the example of the claim.
\<close>

theorem calculateWorkingHours_format_slip:
  "momentTzParse ''01/01/2025 22:00:00'' = momentTzParse ''2001-01-20 22:00:00''
   \<and> momentTzParse ''02/01/2025 06:00:00'' = momentTzParse ''2002-01-20 06:00:00''
   \<and> momentTzParse ''01/01/2025 22:00:00'' = Some 980002800000
   \<and> momentTzParse ''02/01/2025 06:00:00'' = Some 1011481200000
   \<and> calculateWorkingHours momentTzParse 0 (Some ''01/01/2025 22:00:00'')
        (Some ''02/01/2025 06:00:00'') = 8744
   \<and> toFixed2 (calculateWorkingHours momentTzParse 0 (Some ''01/01/2025 22:00:00'')
        (Some ''02/01/2025 06:00:00'')) = ''8744.00''
   \<and> calculateWorkingHours momentTzParse 0 (Some ''2025-01-01 22:00:00'')
        (Some ''2025-01-02 06:00:00'') = 8
   \<and> calculateWorkingHours momentTzParse 0 (Some ''2025-01-01 08:00:00'')
        (Some ''01/01/2025 17:30:00'') = 0
   \<and> fst (clockOut (exampleEnv (remoteOf exampleOnWork exampleMain)) exampleData
        (newService, exampleSheets)) = ClockedOut ''17:30:00'' ''0.00''
   \<and> calculateWorkingHours momentTzParse 0 (Some ''01/01/2025 08:00:00'')
        (Some ''2025-01-01 17:30:00'') = 419875 / 2
   \<and> calculateWorkingHours momentTzParse 0 (Some ''2025-01-01 08:00:00'')
        (Some ''2025-01-01 17:30:00'') = 19 / 2
   \<and> toFixed2 (calculateWorkingHours momentTzParse 0 (Some ''2025-01-01 08:00:00'')
        (Some ''2025-01-01 17:30:00'')) = ''9.50''"
proof -
  have c1: "momentTzParse ''01/01/2025 22:00:00'' = momentTzParse ''2001-01-20 22:00:00''"
    by code_simp
  have c2: "momentTzParse ''02/01/2025 06:00:00'' = momentTzParse ''2002-01-20 06:00:00''"
    by code_simp
  have c3: "momentTzParse ''01/01/2025 22:00:00'' = Some 980002800000" by code_simp
  have c4: "momentTzParse ''02/01/2025 06:00:00'' = Some 1011481200000" by code_simp
  have c5: "calculateWorkingHours momentTzParse 0 (Some ''01/01/2025 22:00:00'')
        (Some ''02/01/2025 06:00:00'') = 8744"
    by code_simp
  have c6: "toFixed2 (calculateWorkingHours momentTzParse 0 (Some ''01/01/2025 22:00:00'')
        (Some ''02/01/2025 06:00:00'')) = ''8744.00''"
    by (simp only: c5 toFixed2_8744)
  have c7: "calculateWorkingHours momentTzParse 0 (Some ''2025-01-01 22:00:00'')
        (Some ''2025-01-02 06:00:00'') = 8"
    by code_simp
  have c8: "calculateWorkingHours momentTzParse 0 (Some ''2025-01-01 08:00:00'')
        (Some ''01/01/2025 17:30:00'') = 0"
    by code_simp
  have c9: "fst (clockOut (exampleEnv (remoteOf exampleOnWork exampleMain)) exampleData
        (newService, exampleSheets)) = ClockedOut ''17:30:00'' ''0.00''"
    by code_simp
  have c10: "calculateWorkingHours momentTzParse 0 (Some ''01/01/2025 08:00:00'')
        (Some ''2025-01-01 17:30:00'') = 419875 / 2"
    by code_simp
  have c11: "calculateWorkingHours momentTzParse 0 (Some ''2025-01-01 08:00:00'')
        (Some ''2025-01-01 17:30:00'') = 19 / 2"
    by code_simp
  have "toFixed2 (19 / 2) = ''9.50''" by code_simp
  then have c12: "toFixed2 (calculateWorkingHours momentTzParse 0 (Some ''2025-01-01 08:00:00'')
        (Some ''2025-01-01 17:30:00'')) = ''9.50''"
    by (simp only: c11)
  show ?thesis
    using c1 c2 c3 c4 c5 c6 c7 c8 c9 c10 c11 c12 by (intro conjI)
qed

end
